theory Spec2Isabelle
  imports Main "HOL-Library.Sublist" "HOL-Library.Word"
begin

section \<open>C strings and the library functions the proxy calls\<close>

text \<open>
  The repository holds two proxies: \<^verbatim>\<open>proxy.c\<close> (sequential, one transaction at a time)
  and \<^verbatim>\<open>concurrentproxy.c\<close> (one thread per connection). Functions of the first carry
  the suffix \<open>_seq\<close>, functions of the second the suffix \<open>_conc\<close>; what both files share
  word for word is defined once.

  A C string is modelled by the list of its characters before the terminating NUL, so the
  end of the list plays the role of the terminator. A pointer into a string is an index
  into the list; a NULL result is \<open>None\<close>.
\<close>

definition NUL :: char where "NUL = CHR 0x00"

definition CR :: char where "CR = CHR 0x0D"

definition LF :: char where "LF = CHR 0x0A"

definition crlf :: string where "crlf = [CR, LF]"

text \<open>The bytes a buffer holds when read as a C string: everything before the first NUL.\<close>

definition c_str :: "string \<Rightarrow> string" where
  "c_str bs = takeWhile (\<lambda>c. c \<noteq> NUL) bs"

subsection \<open>ctype.h in the C locale\<close>

definition tolower :: "char \<Rightarrow> char" where
  "tolower c = (let n = (of_char c :: nat) in if 65 \<le> n \<and> n \<le> 90 then char_of (n + 32) else c)"

definition isdigit :: "char \<Rightarrow> bool" where
  "isdigit c = (let n = (of_char c :: nat) in 48 \<le> n \<and> n \<le> 57)"

definition isspace :: "char \<Rightarrow> bool" where
  "isspace c = (let n = (of_char c :: nat) in n = 32 \<or> (9 \<le> n \<and> n \<le> 13))"

subsection \<open>string.h\<close>

text \<open>\<^verbatim>\<open>strcasecmp\<close> returns an integer less than, equal to or greater than zero; the model
  returns the sign. Bytes are compared as unsigned values after \<^verbatim>\<open>tolower\<close>.\<close>

fun strcasecmp :: "string \<Rightarrow> string \<Rightarrow> int" where
  "strcasecmp [] [] = 0"
| "strcasecmp [] (b # bs) = -1"
| "strcasecmp (a # as) [] = 1"
| "strcasecmp (a # as) (b # bs) =
     (if tolower a = tolower b then strcasecmp as bs
      else if (of_char (tolower a) :: nat) < of_char (tolower b) then -1 else 1)"

text \<open>\<^verbatim>\<open>strncasecmp\<close> looks at no more than the first \<open>n\<close> characters of each string.\<close>

definition strncasecmp :: "string \<Rightarrow> string \<Rightarrow> nat \<Rightarrow> int" where
  "strncasecmp s t n = strcasecmp (take n s) (take n t)"

text \<open>\<^verbatim>\<open>strpbrk(s, accept)\<close>: the first position of \<open>s\<close> holding a character of
  \<open>accept\<close>, or NULL.\<close>

fun strpbrk :: "string \<Rightarrow> string \<Rightarrow> nat option" where
  "strpbrk [] accept = None"
| "strpbrk (c # cs) accept =
     (if c \<in> set accept then Some 0 else map_option Suc (strpbrk cs accept))"

text \<open>\<^verbatim>\<open>strchr(s, c)\<close> for a character \<open>c\<close> other than NUL: its first position, or NULL.\<close>

fun strchr :: "string \<Rightarrow> char \<Rightarrow> nat option" where
  "strchr [] c = None"
| "strchr (x # xs) c = (if x = c then Some 0 else map_option Suc (strchr xs c))"

text \<open>\<^verbatim>\<open>strstr(haystack, needle)\<close>: the first position at which \<open>needle\<close> starts, or NULL.\<close>

fun strstr :: "string \<Rightarrow> string \<Rightarrow> nat option" where
  "strstr [] needle = (if needle = [] then Some 0 else None)"
| "strstr (c # cs) needle =
     (if prefix needle (c # cs) then Some 0 else map_option Suc (strstr cs needle))"

subsection \<open>stdlib.h and stdio.h\<close>

text \<open>\<^verbatim>\<open>atoi\<close> skips white space, reads an optional sign and then the longest run of
  decimal digits; with no digit there the result is 0. A value outside the range of
  \<^verbatim>\<open>int\<close> is undefined behaviour in C; the model returns the mathematical value.\<close>

definition digit_val :: "char \<Rightarrow> int" where
  "digit_val c = int (of_char c) - 48"

fun atoi_digits :: "string \<Rightarrow> int \<Rightarrow> int" where
  "atoi_digits [] acc = acc"
| "atoi_digits (c # cs) acc =
     (if isdigit c then atoi_digits cs (10 * acc + digit_val c) else acc)"

definition atoi :: "string \<Rightarrow> int" where
  "atoi s =
     (case dropWhile isspace s of
        [] \<Rightarrow> 0
      | c # cs \<Rightarrow>
          if c = CHR ''-'' then - atoi_digits cs 0
          else if c = CHR ''+'' then atoi_digits cs 0
          else atoi_digits (c # cs) 0)"

text \<open>The conversion \<^verbatim>\<open>%d\<close>.\<close>

definition digit_char :: "nat \<Rightarrow> char" where
  "digit_char d = ''0123456789'' ! d"

fun show_nat :: "nat \<Rightarrow> string" where
  "show_nat n = (if n < 10 then [digit_char n] else show_nat (n div 10) @ [digit_char (n mod 10)])"

declare show_nat.simps [simp del]

definition show_int :: "int \<Rightarrow> string" where
  "show_int i = (if i < 0 then CHR ''-'' # show_nat (nat (- i)) else show_nat (nat i))"

text \<open>\<^verbatim>\<open>snprintf(buf, size, ...)\<close> stores at most \<open>size - 1\<close> characters of the formatted
  text. \<^verbatim>\<open>sprintf\<close> has no bound: it is modelled by the whole formatted text, and the
  inputs on which the C buffer would be overrun (undefined behaviour) are outside the
  model.\<close>

definition snprintf :: "nat \<Rightarrow> string \<Rightarrow> string" where
  "snprintf n s = take (n - 1) s"

section \<open>parse\_uri\<close>

text \<open>
  \<^verbatim>\<open>parse_uri\<close> returns \<open>-1\<close> (here \<open>None\<close>) or 0 together with the host name, the path
  name and the port it stored through its pointer arguments. On failure it also stores
  the empty string as host name; no caller reads it, so the model drops it.

  The accept set of \<^verbatim>\<open>strpbrk\<close> is the literal \<^verbatim>\<open>" :/\r\n\0"\<close>. As a C string it ends at
  the NUL written into it, so the characters searched for are space, colon, slash, CR
  and LF.
\<close>

definition host_delims :: string where
  "host_delims = [CHR '' '', CHR '':'', CHR ''/'', CR, LF]"

text \<open>The part both files share: everything after \<open>hostbegin\<close> has been set.\<close>

definition parse_from :: "string \<Rightarrow> (string \<times> string \<times> int) option" where
  "parse_from hostbegin =
     (case strpbrk hostbegin host_delims of
        None \<Rightarrow> None
      | Some len \<Rightarrow>
          let hostname = take len hostbegin;
              port = (if hostbegin ! len = CHR '':'' then atoi (drop (Suc len) hostbegin) else 80);
              pathname = (case strchr hostbegin CHR ''/'' of
                            Some i \<Rightarrow> drop i hostbegin
                          | None \<Rightarrow> ''/'')
          in Some (hostname, pathname, port))"

text \<open>\<^verbatim>\<open>concurrentproxy.c\<close>: only \<^verbatim>\<open>http://\<close> is accepted.\<close>

definition parse_uri_conc :: "string \<Rightarrow> (string \<times> string \<times> int) option" where
  "parse_uri_conc uri =
     (if strncasecmp uri ''http://'' 7 \<noteq> 0 then None
      else parse_from (drop 7 uri))"

text \<open>\<^verbatim>\<open>proxy.c\<close>: \<^verbatim>\<open>https://\<close> is accepted too and sets \<open>hostbegin\<close> to \<open>uri + 8\<close>, but
  the next statement, \<^verbatim>\<open>hostbegin = uri + 7\<close>, overwrites either choice.\<close>

definition parse_uri_seq :: "string \<Rightarrow> (string \<times> string \<times> int) option" where
  "parse_uri_seq uri =
     (case (if strncasecmp uri ''http://'' 7 = 0 then Some (drop 7 uri)
            else if strncasecmp uri ''https://'' 8 = 0 then Some (drop 8 uri)
            else None) of
        None \<Rightarrow> None
      | Some hostbegin0 \<Rightarrow> (let hostbegin = drop 7 uri in parse_from hostbegin))"

section \<open>The transaction\<close>

text \<open>
  What one call of \<^verbatim>\<open>proxy\<close> does is recorded as the list of its effects, in the order
  the code performs them. \<open>Resolve\<close> marks the call of \<^verbatim>\<open>parse_uri\<close>, \<open>Connect\<close> the
  call of \<^verbatim>\<open>Open_clientfd\<close>, \<open>FormatLog\<close> the call of \<^verbatim>\<open>format_log_entry\<close> (with the
  record it builds); \<open>LogAppend\<close> is \<^verbatim>\<open>fprintf\<close> to the log, \<open>LogFlush\<close> is
  \<^verbatim>\<open>fflush\<close>, and \<open>MutexLock\<close> and \<open>MutexUnlock\<close> are \<^verbatim>\<open>pthread_mutex_lock\<close> and
  \<^verbatim>\<open>pthread_mutex_unlock\<close> on \<^verbatim>\<open>log_mutex\<close>.
\<close>

datatype event =
    ClientWrite string
  | Resolve string
  | Connect string string
  | UpstreamWrite string
  | FormatLog string
  | MutexLock
  | LogAppend string
  | LogFlush
  | MutexUnlock
  | UpstreamClose

text \<open>
  What the transaction reads from outside:
  \<^item> \<open>blocklist\<close>: the global array filled by \<^verbatim>\<open>read_blocklist\<close> before the first
    connection is accepted;
  \<^item> \<open>open_clientfd\<close>: the outcome of \<^verbatim>\<open>Open_clientfd(hostname, port_str)\<close>: \<open>None\<close> is
    a negative descriptor, the case \<^verbatim>\<open>proxy\<close> tests for; \<open>Some reads\<close> is a connection on
    which the successive calls of \<^verbatim>\<open>Rio_readlineb\<close> return the byte strings \<open>reads\<close> and
    then 0 (end of file), an empty string among them being a return value of 0 as well;
  \<^item> \<open>MAXLINE\<close>: the constant of that name, the size of the line buffers; it comes from
    \<^verbatim>\<open>csapp.h\<close>, which is not among the sources, and is a parameter here;
  \<^item> \<open>time_str\<close>, \<open>host_ip\<close>: what \<^verbatim>\<open>strftime\<close> and \<^verbatim>\<open>inet_ntop\<close> store in
    \<^verbatim>\<open>format_log_entry\<close>;
  \<^item> \<open>uninit_method\<close>, \<open>uninit_uri\<close>, \<open>uninit_version\<close>: the bytes the local arrays
    \<^verbatim>\<open>method\<close>, \<^verbatim>\<open>uri\<close> and \<^verbatim>\<open>version\<close> hold before \<^verbatim>\<open>sscanf\<close>, which leaves an
    array untouched when the line has no token for it.
\<close>

record env =
  blocklist :: "string list"
  open_clientfd :: "string \<Rightarrow> string \<Rightarrow> string list option"
  MAXLINE :: nat
  time_str :: string
  host_ip :: string
  uninit_method :: string
  uninit_uri :: string
  uninit_version :: string

subsection \<open>The request line\<close>

text \<open>The white-space separated tokens of a string, as successive \<^verbatim>\<open>%s\<close> conversions
  read them; \<open>cur\<close> is the token being read.\<close>

fun tokens :: "string \<Rightarrow> string \<Rightarrow> string list" where
  "tokens [] cur = (if cur = [] then [] else [cur])"
| "tokens (c # cs) cur =
     (if isspace c then (if cur = [] then tokens cs [] else cur # tokens cs [])
      else tokens cs (cur @ [c]))"

text \<open>\<^verbatim>\<open>sscanf(buf, "%s %s %s", method, uri, version)\<close>.\<close>

definition sscanf3 :: "env \<Rightarrow> string \<Rightarrow> string \<times> string \<times> string" where
  "sscanf3 e buf =
     (let ts = tokens buf [] in
      (if 0 < length ts then ts ! 0 else uninit_method e,
       if 1 < length ts then ts ! 1 else uninit_uri e,
       if 2 < length ts then ts ! 2 else uninit_version e))"

subsection \<open>clienterror\<close>

definition user_agent_hdr :: string where
  "user_agent_hdr =
     ''User-Agent: Mozilla/5.0 (X11; Linux x86_64; rv:10.0.3) Gecko/20120305 Firefox/10.0.3'' @ crlf"

definition DQUOTE :: char where "DQUOTE = CHR 0x22"

text \<open>\<^verbatim>\<open>proxy.c\<close>: one \<^verbatim>\<open>sprintf\<close> for the body, one for the headers, two writes.\<close>

definition clienterror_body_seq :: "string \<Rightarrow> string \<Rightarrow> string \<Rightarrow> string \<Rightarrow> string" where
  "clienterror_body_seq cause errnum shortmsg longmsg =
     ''<html><title>Proxy Error</title><body bgcolor='' @ [DQUOTE] @ ''ffffff'' @ [DQUOTE] @ ''>''
     @ errnum @ '': '' @ shortmsg @ ''<p>'' @ longmsg @ '': '' @ cause
     @ ''<hr><em>The CS:APP Proxy Server</em></body></html>''"

definition clienterror_hdr :: "string \<Rightarrow> string \<Rightarrow> string \<Rightarrow> string" where
  "clienterror_hdr errnum shortmsg body =
     ''HTTP/1.0 '' @ errnum @ '' '' @ shortmsg @ crlf
     @ ''Content-type: text/html'' @ crlf
     @ ''Content-length: '' @ show_int (int (length body)) @ crlf @ crlf"

definition clienterror_seq :: "string \<Rightarrow> string \<Rightarrow> string \<Rightarrow> string \<Rightarrow> event list" where
  "clienterror_seq cause errnum shortmsg longmsg =
     (let body = clienterror_body_seq cause errnum shortmsg longmsg;
          buf = clienterror_hdr errnum shortmsg body
      in [ClientWrite buf, ClientWrite body])"

text \<open>\<^verbatim>\<open>concurrentproxy.c\<close> builds body and headers by repeated
  \<^verbatim>\<open>sprintf(body, "%s...", body, ...)\<close>, each call appending to what the buffer holds
  (the model takes the calls as the appends they are written to be). The adjacent literals
  \<^verbatim>\<open>"<body bgcolor=""ffffff"">\r\n"\<close> concatenate to text without quotation marks. The
  headers come out as in \<^verbatim>\<open>proxy.c\<close>.\<close>

definition clienterror_body_conc :: "string \<Rightarrow> string \<Rightarrow> string \<Rightarrow> string \<Rightarrow> string" where
  "clienterror_body_conc cause errnum shortmsg longmsg =
     (let body = ''<html><title>Proxy Error</title>'';
          body = body @ ''<body bgcolor=ffffff>'' @ crlf;
          body = body @ errnum @ '': '' @ shortmsg @ crlf;
          body = body @ ''<p>'' @ longmsg @ '': '' @ cause @ crlf;
          body = body @ ''<hr><em>The CS:APP Proxy Server</em>'' @ crlf
      in body)"

definition clienterror_conc :: "string \<Rightarrow> string \<Rightarrow> string \<Rightarrow> string \<Rightarrow> event list" where
  "clienterror_conc cause errnum shortmsg longmsg =
     (let body = clienterror_body_conc cause errnum shortmsg longmsg;
          buf = clienterror_hdr errnum shortmsg body
      in [ClientWrite buf, ClientWrite body])"

subsection \<open>The request sent upstream\<close>

text \<open>Two \<^verbatim>\<open>snprintf\<close> calls fill \<^verbatim>\<open>buf\<close> (of \<open>maxline\<close> bytes, the value of \<^verbatim>\<open>MAXLINE\<close>), the second one behind
  the text of the first; one \<^verbatim>\<open>Rio_writen\<close> sends the result.\<close>

definition request_head :: "string \<Rightarrow> string \<Rightarrow> string \<Rightarrow> string" where
  "request_head method pathname hostname =
     method @ '' '' @ (if pathname \<noteq> [] then pathname else ''/'') @ '' HTTP/1.0'' @ crlf
     @ ''Host: '' @ hostname @ crlf"

definition upstream_request_seq :: "nat \<Rightarrow> string \<Rightarrow> string \<Rightarrow> string \<Rightarrow> string" where
  "upstream_request_seq maxline method pathname hostname =
     (let buf = snprintf maxline (request_head method pathname hostname)
      in buf @ snprintf (maxline - length buf)
           (user_agent_hdr @ ''Connection: close'' @ crlf @ ''Proxy-Connection: close'' @ crlf @ crlf))"

definition upstream_request_conc :: "nat \<Rightarrow> string \<Rightarrow> string \<Rightarrow> string \<Rightarrow> string" where
  "upstream_request_conc maxline method pathname hostname =
     (let buf = snprintf maxline (request_head method pathname hostname)
      in buf @ snprintf (maxline - length buf)
           (''User-Agent: '' @ user_agent_hdr @ ''Connection: close'' @ crlf
            @ ''Proxy-Connection: close'' @ crlf @ crlf))"

subsection \<open>Relaying the response and logging\<close>

text \<open>
  \<^verbatim>\<open>while ((n = Rio_readlineb(...)) != 0) { Rio_writen(connfd, buf, n); size += n; }\<close>
  The counter \<^verbatim>\<open>size\<close> is an \<^verbatim>\<open>int\<close>: the sum is formed in \<^verbatim>\<open>ssize_t\<close> and converted
  back to 32 bits, so it wraps around.
\<close>

fun relay :: "string list \<Rightarrow> 32 word \<Rightarrow> event list \<times> 32 word" where
  "relay [] sz = ([], sz)"
| "relay (r # rs) sz =
     (if length r = 0 then ([], sz)
      else (let (evs, sz') = relay rs (sz + of_nat (length r))
            in (ClientWrite r # evs, sz')))"

text \<open>\<^verbatim>\<open>sprintf(logstring, "[%s] %s %s %d", time_str, host_ip, uri, size)\<close>.\<close>

definition format_log_entry :: "env \<Rightarrow> string \<Rightarrow> 32 word \<Rightarrow> string" where
  "format_log_entry e uri sz =
     ''['' @ time_str e @ ''] '' @ host_ip e @ '' '' @ uri @ '' '' @ show_int (sint sz)"

text \<open>\<^verbatim>\<open>log_request\<close> of \<^verbatim>\<open>concurrentproxy.c\<close>. \<^verbatim>\<open>main\<close> exits unless the log file could
  be opened, so \<^verbatim>\<open>log_file\<close> is not NULL when a transaction runs.\<close>

definition log_request :: "string \<Rightarrow> event list" where
  "log_request log_entry = [MutexLock, LogAppend (log_entry @ [LF]), LogFlush, MutexUnlock]"

subsection \<open>proxy\<close>

text \<open>The argument \<open>line\<close> is what the first \<^verbatim>\<open>Rio_readlineb\<close> on the client socket
  stored; the empty list stands for the return value 0.\<close>

definition forward_seq ::
  "env \<Rightarrow> string \<Rightarrow> string \<Rightarrow> string \<Rightarrow> string \<Rightarrow> int \<Rightarrow> event list" where
  "forward_seq e method uri hostname pathname port =
     (let port_str = snprintf 6 (show_int port) in
      Connect hostname port_str #
      (case open_clientfd e hostname port_str of
         None \<Rightarrow> clienterror_seq hostname ''404'' ''Not Found'' ''Cannot connect to the host''
       | Some reads \<Rightarrow>
           (let (evs, sz) = relay reads 0 in
            let log_entry = format_log_entry e uri sz in
            UpstreamWrite (upstream_request_seq (MAXLINE e) method pathname hostname) # evs
            @ [FormatLog log_entry, LogAppend (log_entry @ [LF]), LogFlush, UpstreamClose])))"

definition proxy_seq :: "env \<Rightarrow> string \<Rightarrow> event list" where
  "proxy_seq e line =
     (if line = [] then []
      else
        (let (method, uri, version) = sscanf3 e (c_str line) in
         if strcasecmp method ''GET'' \<noteq> 0 \<and> strcasecmp method ''HEAD'' \<noteq> 0
         then clienterror_seq method ''501'' ''Not Implemented'' ''Method not implemented''
         else
           Resolve uri #
           (case parse_uri_seq uri of
              None \<Rightarrow> clienterror_seq uri ''400'' ''Bad Request'' ''Cannot parse the request''
            | Some (hostname, pathname, port) \<Rightarrow>
                if list_ex (\<lambda>b. strcasecmp hostname b = 0) (blocklist e)
                then clienterror_seq ''Blocked'' ''403'' ''Forbidden''
                       ''This site is blocked by the proxy.''
                else forward_seq e method uri hostname pathname port)))"

definition forward_conc ::
  "env \<Rightarrow> string \<Rightarrow> string \<Rightarrow> string \<Rightarrow> string \<Rightarrow> int \<Rightarrow> event list" where
  "forward_conc e method uri hostname pathname port =
     (let port_str = snprintf 6 (show_int port) in
      Connect hostname port_str #
      (case open_clientfd e hostname port_str of
         None \<Rightarrow> clienterror_conc hostname ''404'' ''Not found'' ''Cannot connect to the host''
       | Some reads \<Rightarrow>
           (let (evs, sz) = relay reads 0 in
            let log_entry = format_log_entry e uri sz in
            UpstreamWrite (upstream_request_conc (MAXLINE e) method pathname hostname) # evs
            @ FormatLog log_entry # log_request log_entry @ [UpstreamClose])))"

definition proxy_conc :: "env \<Rightarrow> string \<Rightarrow> event list" where
  "proxy_conc e line =
     (if line = [] then []
      else
        (let (method, uri, version) = sscanf3 e (c_str line) in
         if strcasecmp method ''GET'' \<noteq> 0 \<and> strcasecmp method ''HEAD'' \<noteq> 0
         then clienterror_conc method ''501'' ''Not Implemented''
                ''This method is not implemented by the proxy''
         else if list_ex (\<lambda>b. strstr uri b \<noteq> None) (blocklist e)
         then clienterror_conc ''Blocked'' ''403'' ''Forbidden''
                ''This site is blocked by the proxy.''
         else
           Resolve uri #
           (case parse_uri_conc uri of
              None \<Rightarrow> clienterror_conc uri ''400'' ''Bad Request''
                        ''Proxy cannot parse the request''
            | Some (hostname, pathname, port) \<Rightarrow>
                forward_conc e method uri hostname pathname port)))"

section \<open>Notions the properties are stated with\<close>

text \<open>Equality of two strings up to the case of ASCII letters.\<close>

definition ci_equal :: "string \<Rightarrow> string \<Rightarrow> bool" where
  "ci_equal s t = (map tolower s = map tolower t)"

text \<open>The method test of \<^verbatim>\<open>proxy\<close>, in the words of the specification.\<close>

definition supported :: "string \<Rightarrow> bool" where
  "supported method = (ci_equal method ''GET'' \<or> ci_equal method ''HEAD'')"

text \<open>Some entry of the block list equals the host name up to case; some entry occurs in
  the URI.\<close>

definition host_listed :: "env \<Rightarrow> string \<Rightarrow> bool" where
  "host_listed e hostname = list_ex (\<lambda>b. ci_equal hostname b) (blocklist e)"

definition uri_listed :: "env \<Rightarrow> string \<Rightarrow> bool" where
  "uri_listed e uri = list_ex (\<lambda>b. sublist b uri) (blocklist e)"

text \<open>\<^verbatim>\<open>atoi\<close> finds no number in a string: after the white space and the one sign it
  skips there is no decimal digit.\<close>

definition no_number :: "string \<Rightarrow> bool" where
  "no_number s =
     (case dropWhile isspace s of
        [] \<Rightarrow> True
      | c # cs \<Rightarrow>
          if c = CHR ''-'' \<or> c = CHR ''+''
          then (case cs of [] \<Rightarrow> True | d # ds \<Rightarrow> \<not> isdigit d)
          else \<not> isdigit c)"

text \<open>The byte strings written to the client, the lines appended to the log, the URIs
  handed to \<^verbatim>\<open>parse_uri\<close> and the connections attempted, each in order.\<close>

fun client_writes :: "event list \<Rightarrow> string list" where
  "client_writes [] = []"
| "client_writes (ClientWrite s # evs) = s # client_writes evs"
| "client_writes (ev # evs) = client_writes evs"

fun log_lines :: "event list \<Rightarrow> string list" where
  "log_lines [] = []"
| "log_lines (LogAppend s # evs) = s # log_lines evs"
| "log_lines (ev # evs) = log_lines evs"

fun resolutions :: "event list \<Rightarrow> string list" where
  "resolutions [] = []"
| "resolutions (Resolve u # evs) = u # resolutions evs"
| "resolutions (ev # evs) = resolutions evs"

fun connections :: "event list \<Rightarrow> (string \<times> string) list" where
  "connections [] = []"
| "connections (Connect h p # evs) = (h, p) # connections evs"
| "connections (ev # evs) = connections evs"

text \<open>The requests written to the upstream server, in order.\<close>

fun upstream_writes :: "event list \<Rightarrow> string list" where
  "upstream_writes [] = []"
| "upstream_writes (UpstreamWrite s # evs) = s # upstream_writes evs"
| "upstream_writes (ev # evs) = upstream_writes evs"

text \<open>The reads of the upstream response that the relay loop forwards: those before the
  first empty one.\<close>

definition forwarded :: "string list \<Rightarrow> string list" where
  "forwarded reads = takeWhile (\<lambda>r. r \<noteq> []) reads"

text \<open>A string is the decimal numeral of a number: digits only, no leading zero, and the
  digits, weighted by powers of ten, add up to the number.\<close>

definition decimal_digit :: "char \<Rightarrow> bool" where
  "decimal_digit c = (c \<in> set ''0123456789'')"

definition decimal_of :: "string \<Rightarrow> nat \<Rightarrow> bool" where
  "decimal_of v n =
     (v \<noteq> [] \<and> list_all decimal_digit v
      \<and> (v = ''0'' \<or> hd v \<noteq> CHR ''0'')
      \<and> foldl (\<lambda>a c. 10 * a + (of_char c - 48)) 0 v = n)"

text \<open>
  A well-formed error response: two writes, the headers and then the body. The headers
  are an HTTP/1.0 status line with code and reason, a \<^verbatim>\<open>Content-type\<close> line and a
  \<^verbatim>\<open>Content-length\<close> line whose value is the decimal numeral of the length of the body,
  closed by an empty line; the body is an HTML document that contains code, reason, long
  description and cause. Line ends are the bytes 13 and 10.
\<close>

definition headers_before_length :: "string \<Rightarrow> string \<Rightarrow> string" where
  "headers_before_length errnum shortmsg =
     ''HTTP/1.0 '' @ errnum @ '' '' @ shortmsg @ [CHR 0x0D, CHR 0x0A]
     @ ''Content-type: text/html'' @ [CHR 0x0D, CHR 0x0A]
     @ ''Content-length: ''"

definition error_page :: "string \<Rightarrow> string \<Rightarrow> string \<Rightarrow> string \<Rightarrow> string list \<Rightarrow> bool" where
  "error_page errnum shortmsg longmsg cause ws =
     (case ws of
        [hdr, body] \<Rightarrow>
          (let before = headers_before_length errnum shortmsg;
               digits = take (length hdr - length before - 4) (drop (length before) hdr)
           in hdr = before @ digits @ [CHR 0x0D, CHR 0x0A, CHR 0x0D, CHR 0x0A]
              \<and> decimal_of digits (length body)
              \<and> prefix ''<html>'' body
              \<and> sublist errnum body \<and> sublist shortmsg body
              \<and> sublist longmsg body \<and> sublist cause body)
      | _ \<Rightarrow> False)"

text \<open>The two header lines that end every forwarded request.\<close>

definition request_tail :: string where
  "request_tail = ''Connection: close'' @ crlf @ ''Proxy-Connection: close'' @ crlf @ crlf"

text \<open>The text of the forwarded request, given the \<^verbatim>\<open>User-Agent\<close> line.\<close>

definition request_text :: "string \<Rightarrow> string \<Rightarrow> string \<Rightarrow> string \<Rightarrow> string" where
  "request_text method pathname hostname ua =
     method @ '' '' @ pathname @ '' HTTP/1.0'' @ crlf @ ''Host: '' @ hostname @ crlf
     @ ua @ request_tail"

text \<open>A \<^verbatim>\<open>User-Agent\<close> header line: the header name, a value without line break, CR LF.\<close>

definition user_agent_line :: "string \<Rightarrow> bool" where
  "user_agent_line l =
     (prefix ''User-Agent: '' l \<and> suffix crlf l
      \<and> CR \<notin> set (take (length l - 2) l) \<and> LF \<notin> set (take (length l - 2) l))"

text \<open>The events of a transaction that concern the log, in order.\<close>

fun log_events :: "event list \<Rightarrow> event list" where
  "log_events [] = []"
| "log_events (FormatLog s # evs) = FormatLog s # log_events evs"
| "log_events (MutexLock # evs) = MutexLock # log_events evs"
| "log_events (LogAppend s # evs) = LogAppend s # log_events evs"
| "log_events (LogFlush # evs) = LogFlush # log_events evs"
| "log_events (MutexUnlock # evs) = MutexUnlock # log_events evs"
| "log_events (ev # evs) = log_events evs"

text \<open>
  A trace keeps the log inside critical sections: the mutex is locked only when free and
  unlocked only when held, every write to the log and every flush happens while it is
  held, and it is free at the end. The flag says whether the mutex is held at the start.
\<close>

fun critical :: "bool \<Rightarrow> event list \<Rightarrow> bool" where
  "critical held [] = (\<not> held)"
| "critical held (MutexLock # evs) = (\<not> held \<and> critical True evs)"
| "critical held (MutexUnlock # evs) = (held \<and> critical False evs)"
| "critical held (LogAppend s # evs) = (held \<and> critical held evs)"
| "critical held (LogFlush # evs) = (held \<and> critical held evs)"
| "critical held (ev # evs) = critical held evs"


section \<open>Example inputs\<close>

text \<open>An environment with one blocked host and one reachable server; \<open>MAXLINE\<close> has the
  value of the CS:APP distribution.\<close>

definition example_env :: env where
  "example_env =
     \<lparr>blocklist = [''example.com''],
      open_clientfd =
        (\<lambda>h p. if h = ''ok.org'' then Some [''HTTP/1.0 200 OK'' @ crlf, crlf, ''hi''] else None),
      MAXLINE = 8192,
      time_str = ''Mon 02 Nov 2026 10:00:00 UTC'', host_ip = ''127.0.0.1'',
      uninit_method = [], uninit_uri = [], uninit_version = []\<rparr>"

text \<open>An upstream server that sends \<open>2\<^sup>3\<^sup>1\<close> bytes, in lines of 4096 bytes.\<close>

definition big_response :: "string list" where
  "big_response = replicate 524288 (replicate 4095 (CHR ''a'') @ [LF])"

definition big_env :: env where
  "big_env = example_env\<lparr>open_clientfd := (\<lambda>h p. Some big_response)\<rparr>"

text \<open>A request line of 8179 bytes, which fits the buffer of 8192 bytes it is read
  into: a GET for a path of 8150 letters below the reachable host.\<close>

definition long_path :: string where
  "long_path = CHR ''/'' # replicate 8150 (CHR ''a'')"

definition long_line :: string where
  "long_line = ''GET http://ok.org'' @ long_path @ '' HTTP/1.1'' @ crlf"

section \<open>Properties\<close>

subsection \<open>Auxiliary facts\<close>

lemma strcasecmp_eq_0: "strcasecmp s t = 0 \<longleftrightarrow> ci_equal s t"
  by (induction s t rule: strcasecmp.induct) (auto simp: ci_equal_def)

lemma ci_equal_length: "ci_equal s t \<Longrightarrow> length s = length t"
  unfolding ci_equal_def by (rule map_eq_imp_length_eq)

lemma strncasecmp_eq_0: "strncasecmp s t n = 0 \<longleftrightarrow> ci_equal (take n s) (take n t)"
  by (simp add: strncasecmp_def strcasecmp_eq_0)

lemma strstr_Some_iff: "strstr h n \<noteq> None \<longleftrightarrow> sublist n h"
  by (induction h) (auto simp: sublist_Cons_right)

lemma strstr_Some_ex: "(\<exists>i. strstr h n = Some i) \<longleftrightarrow> sublist n h"
  using strstr_Some_iff [of h n] by auto

lemma strpbrk_first:
  "set h \<inter> set accept = {} \<Longrightarrow> c \<in> set accept \<Longrightarrow> strpbrk (h @ c # r) accept = Some (length h)"
  by (induction h) auto

lemma strpbrk_None: "strpbrk s accept = None \<longleftrightarrow> set s \<inter> set accept = {}"
  by (induction s) auto

lemma strpbrk_Some:
  "strpbrk s accept = Some n \<Longrightarrow>
     n < length s \<and> s ! n \<in> set accept \<and> take n s = takeWhile (\<lambda>c. c \<notin> set accept) s"
  by (induction s arbitrary: n) (auto split: if_splits)

lemma strchr_Some: "strchr s c = Some i \<Longrightarrow> i < length s"
  by (induction s arbitrary: i) (auto split: if_splits)

lemma atoi_digits_no_digit:
  "(case s of [] \<Rightarrow> True | d # ds \<Rightarrow> \<not> isdigit d) \<Longrightarrow> atoi_digits s acc = acc"
  by (cases s) auto

lemma atoi_no_number:
  assumes "no_number s"
  shows "atoi s = 0"
proof (cases "dropWhile isspace s")
  case Nil
  show ?thesis unfolding atoi_def Nil by simp
next
  case (Cons c cs)
  show ?thesis
  proof (cases "c = CHR ''-'' \<or> c = CHR ''+''")
    case True
    with assms Cons have "atoi_digits cs 0 = 0"
      by (intro atoi_digits_no_digit) (simp add: no_number_def)
    with True Cons show ?thesis by (auto simp: atoi_def)
  next
    case False
    with assms Cons have "\<not> isdigit c" by (simp add: no_number_def)
    with False Cons show ?thesis by (simp add: atoi_def)
  qed
qed

lemma digit_char_digit:
  assumes "d < 10"
  shows "isdigit (digit_char d)" and "digit_val (digit_char d) = int d"
    and "\<not> isspace (digit_char d)" and "digit_char d \<noteq> CHR ''-''" and "digit_char d \<noteq> CHR ''+''"
proof -
  from assms consider "d = 0" | "d = 1" | "d = 2" | "d = 3" | "d = 4" | "d = 5" | "d = 6"
    | "d = 7" | "d = 8" | "d = 9"
    by atomize_elim arith
  then have "isdigit (digit_char d) \<and> digit_val (digit_char d) = int d
      \<and> \<not> isspace (digit_char d) \<and> digit_char d \<noteq> CHR ''-'' \<and> digit_char d \<noteq> CHR ''+''"
    by cases (simp_all add: digit_char_def isdigit_def digit_val_def isspace_def)
  then show "isdigit (digit_char d)" and "digit_val (digit_char d) = int d"
    and "\<not> isspace (digit_char d)" and "digit_char d \<noteq> CHR ''-''" and "digit_char d \<noteq> CHR ''+''"
    by simp_all
qed

lemma atoi_digits_show_nat:
  "atoi_digits (show_nat n @ rest) acc
     = atoi_digits rest (acc * 10 ^ length (show_nat n) + int n)"
proof (induction n arbitrary: rest acc rule: show_nat.induct)
  case (1 n)
  show ?case
  proof (cases "n < 10")
    case True
    then show ?thesis
      by (simp add: show_nat.simps [of n] digit_char_digit mult.commute)
  next
    case False
    have d: "n mod 10 < 10" by simp
    from False have "atoi_digits (show_nat n @ rest) acc
        = atoi_digits (show_nat (n div 10) @ digit_char (n mod 10) # rest) acc"
      by (simp add: show_nat.simps [of n])
    also have "\<dots> = atoi_digits (digit_char (n mod 10) # rest)
        (acc * 10 ^ length (show_nat (n div 10)) + int (n div 10))"
      using False by (rule "1.IH")
    also have "\<dots> = atoi_digits rest
        (10 * (acc * 10 ^ length (show_nat (n div 10)) + int (n div 10)) + int (n mod 10))"
      by (simp add: digit_char_digit [OF d])
    also have "10 * (acc * 10 ^ length (show_nat (n div 10)) + int (n div 10)) + int (n mod 10)
        = acc * 10 ^ length (show_nat n) + int n"
      using False by (simp add: show_nat.simps [of n] algebra_simps zdiv_int zmod_int)
    finally show ?thesis .
  qed
qed

lemma show_nat_hd: "\<exists>d ds. d < 10 \<and> show_nat n = digit_char d # ds"
proof (induction n rule: show_nat.induct)
  case (1 n)
  show ?case
  proof (cases "n < 10")
    case True
    then show ?thesis by (auto simp: show_nat.simps [of n])
  next
    case False
    with "1.IH" obtain d ds where "d < 10" "show_nat (n div 10) = digit_char d # ds"
      by blast
    with False show ?thesis by (auto simp: show_nat.simps [of n])
  qed
qed

text \<open>\<^verbatim>\<open>atoi\<close> reads back what \<^verbatim>\<open>%d\<close> prints, whatever follows the number, as long as
  that is not another digit.\<close>

lemma atoi_show_int:
  assumes "case rest of [] \<Rightarrow> True | c # cs \<Rightarrow> \<not> isdigit c"
  shows "atoi (show_int i @ rest) = i"
proof -
  have stop: "atoi_digits rest acc = acc" for acc
    using assms by (cases rest) auto
  have num: "atoi_digits (show_nat n @ rest) 0 = int n" for n
    by (simp add: atoi_digits_show_nat stop)
  show ?thesis
  proof (cases "i < 0")
    case True
    then show ?thesis
      by (simp add: show_int_def atoi_def isspace_def num)
  next
    case False
    obtain d ds where d: "d < 10" "show_nat (nat i) = digit_char d # ds"
      using show_nat_hd by blast
    have "atoi (show_nat (nat i) @ rest) = atoi_digits (show_nat (nat i) @ rest) 0"
      by (simp add: atoi_def d digit_char_digit [OF d(1)])
    with False show ?thesis
      by (simp add: show_int_def num)
  qed
qed

lemma relay_eq:
  "relay reads sz =
     (map ClientWrite (takeWhile (\<lambda>r. r \<noteq> []) reads),
      sz + of_nat (sum_list (map length (takeWhile (\<lambda>r. r \<noteq> []) reads))))"
  by (induction reads arbitrary: sz) (auto simp: Let_def)

lemma client_writes_append [simp]: "client_writes (xs @ ys) = client_writes xs @ client_writes ys"
  by (induction xs rule: client_writes.induct) auto

lemma log_lines_append [simp]: "log_lines (xs @ ys) = log_lines xs @ log_lines ys"
  by (induction xs rule: log_lines.induct) auto

lemma resolutions_append [simp]: "resolutions (xs @ ys) = resolutions xs @ resolutions ys"
  by (induction xs rule: resolutions.induct) auto

lemma connections_append [simp]: "connections (xs @ ys) = connections xs @ connections ys"
  by (induction xs rule: connections.induct) auto

lemma upstream_writes_append [simp]:
  "upstream_writes (xs @ ys) = upstream_writes xs @ upstream_writes ys"
  by (induction xs rule: upstream_writes.induct) auto

lemma client_writes_map [simp]: "client_writes (map ClientWrite rs) = rs"
  by (induction rs) auto

lemma log_lines_map [simp]: "log_lines (map ClientWrite rs) = []"
  by (induction rs) auto

lemma resolutions_map [simp]: "resolutions (map ClientWrite rs) = []"
  by (induction rs) auto

lemma connections_map [simp]: "connections (map ClientWrite rs) = []"
  by (induction rs) auto

lemma upstream_writes_map [simp]: "upstream_writes (map ClientWrite rs) = []"
  by (induction rs) auto

subsection \<open>URI resolution\<close>

lemma parse_uri_http:
  assumes "ci_equal (take 7 uri) ''http://''"
  shows "parse_uri_conc uri = parse_from (drop 7 uri)"
    and "parse_uri_seq uri = parse_from (drop 7 uri)"
  using assms by (simp_all add: parse_uri_conc_def parse_uri_seq_def strncasecmp_eq_0)

text \<open>Behind \<^verbatim>\<open>http://\<close> the host name is the text before the first boundary character,
  and there is no result without one.\<close>

lemma parse_from_hostname:
  "parse_from hostbegin =
     (if set hostbegin \<inter> set host_delims = {} then None
      else Some (takeWhile (\<lambda>c. c \<notin> set host_delims) hostbegin,
                 (case strchr hostbegin CHR ''/'' of Some i \<Rightarrow> drop i hostbegin | None \<Rightarrow> ''/''),
                 (if hostbegin ! length (takeWhile (\<lambda>c. c \<notin> set host_delims) hostbegin) = CHR '':''
                  then atoi (drop (Suc (length (takeWhile (\<lambda>c. c \<notin> set host_delims) hostbegin))) hostbegin)
                  else 80)))"
proof (cases "strpbrk hostbegin host_delims")
  case None
  then show ?thesis
    using strpbrk_None [of hostbegin host_delims] by (simp add: parse_from_def)
next
  case (Some n)
  from strpbrk_Some [OF Some] have n: "n < length hostbegin"
    and tk: "take n hostbegin = takeWhile (\<lambda>c. c \<notin> set host_delims) hostbegin" by auto
  from tk n have len: "length (takeWhile (\<lambda>c. c \<notin> set host_delims) hostbegin) = n"
    by (metis length_take min.absorb2 less_imp_le)
  have ne: "set hostbegin \<inter> set host_delims \<noteq> {}"
    using Some strpbrk_None [of hostbegin host_delims] by auto
  show ?thesis
    using Some ne by (simp add: parse_from_def Let_def tk len)
qed

text \<open>A path that \<^verbatim>\<open>parse_uri\<close> returns is never empty.\<close>

lemma parse_from_path: "parse_from hostbegin = Some (hostname, pathname, port) \<Longrightarrow> pathname \<noteq> []"
  by (auto simp: parse_from_def Let_def split: option.splits dest: strchr_Some)

lemma parse_uri_path:
  "parse_uri_seq uri = Some (hostname, pathname, port) \<Longrightarrow> pathname \<noteq> []"
  "parse_uri_conc uri = Some (hostname, pathname, port) \<Longrightarrow> pathname \<noteq> []"
  by (auto simp: parse_uri_seq_def parse_uri_conc_def split: if_splits dest: parse_from_path)

subsection \<open>The transaction, path by path\<close>

lemma connections_clienterror [simp]:
  "connections (clienterror_seq c n s l) = []" "connections (clienterror_conc c n s l) = []"
  by (simp_all add: clienterror_seq_def clienterror_conc_def Let_def)

lemma resolutions_clienterror [simp]:
  "resolutions (clienterror_seq c n s l) = []" "resolutions (clienterror_conc c n s l) = []"
  by (simp_all add: clienterror_seq_def clienterror_conc_def Let_def)

lemma log_lines_clienterror [simp]:
  "log_lines (clienterror_seq c n s l) = []" "log_lines (clienterror_conc c n s l) = []"
  by (simp_all add: clienterror_seq_def clienterror_conc_def Let_def)

lemma sublist_inside: "s = a @ x @ b \<Longrightarrow> sublist x s"
  unfolding sublist_def by blast

lemma clienterror_body_seq_embeds:
  "sublist errnum (clienterror_body_seq cause errnum shortmsg longmsg)"
  "sublist shortmsg (clienterror_body_seq cause errnum shortmsg longmsg)"
  "sublist longmsg (clienterror_body_seq cause errnum shortmsg longmsg)"
  "sublist cause (clienterror_body_seq cause errnum shortmsg longmsg)"
proof -
  let ?pre = "''<html><title>Proxy Error</title><body bgcolor='' @ [DQUOTE] @ ''ffffff'' @ [DQUOTE] @ ''>''"
  let ?body = "clienterror_body_seq cause errnum shortmsg longmsg"
  show "sublist errnum ?body"
    by (rule sublist_inside [where a = ?pre]) (simp add: clienterror_body_seq_def)
  show "sublist shortmsg ?body"
    by (rule sublist_inside [where a = "?pre @ errnum @ '': ''"])
      (simp add: clienterror_body_seq_def)
  show "sublist longmsg ?body"
    by (rule sublist_inside [where a = "?pre @ errnum @ '': '' @ shortmsg @ ''<p>''"])
      (simp add: clienterror_body_seq_def)
  show "sublist cause ?body"
    by (rule sublist_inside [where a = "?pre @ errnum @ '': '' @ shortmsg @ ''<p>'' @ longmsg @ '': ''"])
      (simp add: clienterror_body_seq_def)
qed

lemma clienterror_body_conc_embeds:
  "sublist errnum (clienterror_body_conc cause errnum shortmsg longmsg)"
  "sublist shortmsg (clienterror_body_conc cause errnum shortmsg longmsg)"
  "sublist longmsg (clienterror_body_conc cause errnum shortmsg longmsg)"
  "sublist cause (clienterror_body_conc cause errnum shortmsg longmsg)"
proof -
  let ?pre = "''<html><title>Proxy Error</title>'' @ ''<body bgcolor=ffffff>'' @ crlf"
  let ?body = "clienterror_body_conc cause errnum shortmsg longmsg"
  show "sublist errnum ?body"
    by (rule sublist_inside [where a = ?pre]) (simp add: clienterror_body_conc_def)
  show "sublist shortmsg ?body"
    by (rule sublist_inside [where a = "?pre @ errnum @ '': ''"])
      (simp add: clienterror_body_conc_def)
  show "sublist longmsg ?body"
    by (rule sublist_inside [where a = "?pre @ errnum @ '': '' @ shortmsg @ crlf @ ''<p>''"])
      (simp add: clienterror_body_conc_def)
  show "sublist cause ?body"
    by (rule sublist_inside
        [where a = "?pre @ errnum @ '': '' @ shortmsg @ crlf @ ''<p>'' @ longmsg @ '': ''"])
      (simp add: clienterror_body_conc_def)
qed

text \<open>What \<^verbatim>\<open>%d\<close> prints for a length is its decimal numeral.\<close>

lemma digit_char_in_digits:
  assumes "d < 10"
  shows "decimal_digit (digit_char d)" and "of_char (digit_char d) - 48 = d"
    and "digit_char d = CHR ''0'' \<longleftrightarrow> d = 0"
proof -
  from assms consider "d = 0" | "d = 1" | "d = 2" | "d = 3" | "d = 4" | "d = 5" | "d = 6"
    | "d = 7" | "d = 8" | "d = 9"
    by atomize_elim arith
  then have "decimal_digit (digit_char d) \<and> of_char (digit_char d) - 48 = d
      \<and> (digit_char d = CHR ''0'' \<longleftrightarrow> d = 0)"
    by cases (simp_all add: digit_char_def decimal_digit_def)
  then show "decimal_digit (digit_char d)" and "of_char (digit_char d) - 48 = d"
    and "digit_char d = CHR ''0'' \<longleftrightarrow> d = 0"
    by simp_all
qed

lemma show_nat_digits: "list_all decimal_digit (show_nat n)"
proof (induction n rule: show_nat.induct)
  case (1 n)
  have d: "n mod 10 < 10" by simp
  show ?case
  proof (cases "n < 10")
    case True
    then show ?thesis
      using digit_char_in_digits(1) [of n] by (simp add: show_nat.simps [of n])
  next
    case False
    with "1.IH" digit_char_in_digits(1) [OF d] show ?thesis
      by (simp add: show_nat.simps [of n])
  qed
qed

lemma show_nat_foldl:
  "foldl (\<lambda>a c. 10 * a + (of_char c - 48)) a (show_nat n) = a * 10 ^ length (show_nat n) + n"
proof (induction n arbitrary: a rule: show_nat.induct)
  case (1 n)
  have d: "n mod 10 < 10" by simp
  show ?case
  proof (cases "n < 10")
    case True
    then show ?thesis
      by (simp add: show_nat.simps [of n] digit_char_in_digits(2))
  next
    case False
    then have "foldl (\<lambda>a c. 10 * a + (of_char c - 48)) a (show_nat n)
        = 10 * foldl (\<lambda>a c. 10 * a + (of_char c - 48)) a (show_nat (n div 10)) + n mod 10"
      by (simp add: show_nat.simps [of n] digit_char_in_digits(2) [OF d])
    also have "\<dots> = 10 * (a * 10 ^ length (show_nat (n div 10)) + n div 10) + n mod 10"
      using False by (simp add: "1.IH")
    also have "\<dots> = a * 10 ^ length (show_nat n) + n"
      using False by (simp add: show_nat.simps [of n] algebra_simps)
    finally show ?thesis .
  qed
qed

lemma show_nat_leading: "show_nat n = ''0'' \<or> hd (show_nat n) \<noteq> CHR ''0''"
proof (induction n rule: show_nat.induct)
  case (1 n)
  show ?case
  proof (cases "n < 10")
    case True
    then show ?thesis
      by (simp add: show_nat.simps [of n])
  next
    case False
    then have pos: "n div 10 \<noteq> 0" by simp
    obtain d ds where ds: "d < 10" "show_nat (n div 10) = digit_char d # ds"
      using show_nat_hd by blast
    have "show_nat (n div 10) \<noteq> ''0''"
    proof
      assume z: "show_nat (n div 10) = ''0''"
      have "foldl (\<lambda>a c. 10 * a + (of_char c - 48)) 0 (show_nat (n div 10)) = n div 10"
        by (simp add: show_nat_foldl)
      with z pos show False by simp
    qed
    with "1.IH" False have "hd (show_nat (n div 10)) \<noteq> CHR ''0''"
      by blast
    with False ds show ?thesis
      by (simp add: show_nat.simps [of n])
  qed
qed

lemma show_int_decimal: "decimal_of (show_int (int n)) n"
proof -
  have "show_nat n \<noteq> []"
    using show_nat_hd [of n] by auto
  then show ?thesis
    using show_nat_leading [of n]
    by (simp add: decimal_of_def show_int_def show_nat_digits show_nat_foldl)
qed

lemma clienterror_hdr_page:
  assumes "prefix ''<html>'' body" and "sublist errnum body" and "sublist shortmsg body"
    and "sublist longmsg body" and "sublist cause body"
  shows "error_page errnum shortmsg longmsg cause [clienterror_hdr errnum shortmsg body, body]"
proof -
  let ?before = "headers_before_length errnum shortmsg"
  let ?v = "show_int (int (length body))"
  let ?hdr = "clienterror_hdr errnum shortmsg body"
  have h: "?hdr = ?before @ ?v @ [CHR 0x0D, CHR 0x0A, CHR 0x0D, CHR 0x0A]"
    by (simp add: clienterror_hdr_def headers_before_length_def crlf_def CR_def LF_def)
  have mid: "take (length ?hdr - length ?before - 4) (drop (length ?before) ?hdr) = ?v"
    unfolding h by simp
  show ?thesis
    unfolding error_page_def Let_def list.case mid
    using assms h show_int_decimal [of "length body"] by blast
qed

lemma clienterror_seq_page:
  "error_page errnum shortmsg longmsg cause
     (client_writes (clienterror_seq cause errnum shortmsg longmsg))"
proof -
  have "prefix ''<html>'' (clienterror_body_seq cause errnum shortmsg longmsg)"
    by (simp add: clienterror_body_seq_def)
  then show ?thesis
    by (simp add: clienterror_seq_def Let_def clienterror_hdr_page clienterror_body_seq_embeds)
qed

lemma clienterror_conc_page:
  "error_page errnum shortmsg longmsg cause
     (client_writes (clienterror_conc cause errnum shortmsg longmsg))"
proof -
  have "prefix ''<html>'' (clienterror_body_conc cause errnum shortmsg longmsg)"
    by (simp add: clienterror_body_conc_def)
  then show ?thesis
    by (simp add: clienterror_conc_def Let_def clienterror_hdr_page clienterror_body_conc_embeds)
qed

text \<open>The value of the \<^verbatim>\<open>Content-length\<close> header, read as a number, is the length of the
  body.\<close>

lemma content_length_value:
  "clienterror_hdr errnum shortmsg body =
     ''HTTP/1.0 '' @ errnum @ '' '' @ shortmsg @ crlf @ ''Content-type: text/html'' @ crlf
     @ ''Content-length: '' @ show_int (int (length body)) @ crlf @ crlf
   \<and> atoi (show_int (int (length body)) @ crlf @ crlf) = int (length body)"
  by (simp add: clienterror_hdr_def atoi_show_int crlf_def CR_def isdigit_def)

text \<open>The two proxies with the request line already split and the tests of the code
  replaced by their meaning.\<close>

lemma proxy_seq_unfold:
  assumes "line \<noteq> []" and "sscanf3 e (c_str line) = (method, uri, version)"
  shows "proxy_seq e line =
     (if \<not> supported method
      then clienterror_seq method ''501'' ''Not Implemented'' ''Method not implemented''
      else Resolve uri #
        (case parse_uri_seq uri of
           None \<Rightarrow> clienterror_seq uri ''400'' ''Bad Request'' ''Cannot parse the request''
         | Some (hostname, pathname, port) \<Rightarrow>
             if host_listed e hostname
             then clienterror_seq ''Blocked'' ''403'' ''Forbidden''
                    ''This site is blocked by the proxy.''
             else forward_seq e method uri hostname pathname port))"
  using assms
  by (simp add: proxy_seq_def supported_def host_listed_def strcasecmp_eq_0
      split: option.split)

lemma proxy_conc_unfold:
  assumes "line \<noteq> []" and "sscanf3 e (c_str line) = (method, uri, version)"
  shows "proxy_conc e line =
     (if \<not> supported method
      then clienterror_conc method ''501'' ''Not Implemented''
             ''This method is not implemented by the proxy''
      else if uri_listed e uri
      then clienterror_conc ''Blocked'' ''403'' ''Forbidden''
             ''This site is blocked by the proxy.''
      else Resolve uri #
        (case parse_uri_conc uri of
           None \<Rightarrow> clienterror_conc uri ''400'' ''Bad Request''
                     ''Proxy cannot parse the request''
         | Some (hostname, pathname, port) \<Rightarrow>
             forward_conc e method uri hostname pathname port))"
  using assms
  by (simp add: proxy_conc_def supported_def uri_listed_def strcasecmp_eq_0 strstr_Some_ex
      split: option.split)

lemma forward_seq_fail:
  "open_clientfd e hostname (snprintf 6 (show_int port)) = None \<Longrightarrow>
   forward_seq e method uri hostname pathname port =
     Connect hostname (snprintf 6 (show_int port)) #
     clienterror_seq hostname ''404'' ''Not Found'' ''Cannot connect to the host''"
  by (simp add: forward_seq_def)

lemma forward_conc_fail:
  "open_clientfd e hostname (snprintf 6 (show_int port)) = None \<Longrightarrow>
   forward_conc e method uri hostname pathname port =
     Connect hostname (snprintf 6 (show_int port)) #
     clienterror_conc hostname ''404'' ''Not found'' ''Cannot connect to the host''"
  by (simp add: forward_conc_def)

text \<open>A completed relay: every read before the first empty one is written to the client,
  and the counter ends as the sum of their lengths, reduced to 32 bits.\<close>

lemma forward_seq_ok:
  "open_clientfd e hostname (snprintf 6 (show_int port)) = Some reads \<Longrightarrow>
   forward_seq e method uri hostname pathname port =
     Connect hostname (snprintf 6 (show_int port)) #
     UpstreamWrite (upstream_request_seq (MAXLINE e) method pathname hostname) #
     map ClientWrite (forwarded reads) @
     [FormatLog (format_log_entry e uri (of_nat (sum_list (map length (forwarded reads))))),
      LogAppend (format_log_entry e uri (of_nat (sum_list (map length (forwarded reads)))) @ [LF]),
      LogFlush, UpstreamClose]"
  by (simp add: forward_seq_def relay_eq forwarded_def Let_def)

lemma forward_conc_ok:
  "open_clientfd e hostname (snprintf 6 (show_int port)) = Some reads \<Longrightarrow>
   forward_conc e method uri hostname pathname port =
     Connect hostname (snprintf 6 (show_int port)) #
     UpstreamWrite (upstream_request_conc (MAXLINE e) method pathname hostname) #
     map ClientWrite (forwarded reads) @
     [FormatLog (format_log_entry e uri (of_nat (sum_list (map length (forwarded reads))))),
      MutexLock,
      LogAppend (format_log_entry e uri (of_nat (sum_list (map length (forwarded reads)))) @ [LF]),
      LogFlush, MutexUnlock, UpstreamClose]"
  by (simp add: forward_conc_def relay_eq forwarded_def log_request_def Let_def)

lemma connections_forward [simp]:
  "connections (forward_seq e method uri hostname pathname port) =
     [(hostname, snprintf 6 (show_int port))]"
  "connections (forward_conc e method uri hostname pathname port) =
     [(hostname, snprintf 6 (show_int port))]"
  by (cases "open_clientfd e hostname (snprintf 6 (show_int port))";
      simp add: forward_seq_fail forward_seq_ok forward_conc_fail forward_conc_ok)+

lemma resolutions_forward [simp]:
  "resolutions (forward_seq e method uri hostname pathname port) = []"
  "resolutions (forward_conc e method uri hostname pathname port) = []"
  by (cases "open_clientfd e hostname (snprintf 6 (show_int port))";
      simp add: forward_seq_fail forward_seq_ok forward_conc_fail forward_conc_ok)+

lemma log_lines_forward_fail:
  "open_clientfd e hostname (snprintf 6 (show_int port)) = None \<Longrightarrow>
   log_lines (forward_seq e method uri hostname pathname port) = []
   \<and> log_lines (forward_conc e method uri hostname pathname port) = []"
  by (simp add: forward_seq_fail forward_conc_fail)

lemma log_lines_forward_ok:
  "open_clientfd e hostname (snprintf 6 (show_int port)) = Some reads \<Longrightarrow>
   log_lines (forward_seq e method uri hostname pathname port)
     = [format_log_entry e uri (of_nat (sum_list (map length (forwarded reads)))) @ [LF]]
   \<and> log_lines (forward_conc e method uri hostname pathname port)
     = [format_log_entry e uri (of_nat (sum_list (map length (forwarded reads)))) @ [LF]]"
  by (simp add: forward_seq_ok forward_conc_ok)

lemma client_writes_forward_ok:
  "open_clientfd e hostname (snprintf 6 (show_int port)) = Some reads \<Longrightarrow>
   client_writes (forward_seq e method uri hostname pathname port) = forwarded reads
   \<and> client_writes (forward_conc e method uri hostname pathname port) = forwarded reads"
  by (simp add: forward_seq_ok forward_conc_ok)

lemma upstream_writes_forward_ok:
  "open_clientfd e hostname (snprintf 6 (show_int port)) = Some reads \<Longrightarrow>
   upstream_writes (forward_seq e method uri hostname pathname port)
     = [upstream_request_seq (MAXLINE e) method pathname hostname]
   \<and> upstream_writes (forward_conc e method uri hostname pathname port)
     = [upstream_request_conc (MAXLINE e) method pathname hostname]"
  by (simp add: forward_seq_ok forward_conc_ok)

lemma sscanf3_open_clientfd [simp]:
  "sscanf3 (e\<lparr>open_clientfd := f\<rparr>) buf = sscanf3 e buf"
  by (simp add: sscanf3_def Let_def)

lemma host_listed_open_clientfd [simp]:
  "host_listed (e\<lparr>open_clientfd := f\<rparr>) h = host_listed e h"
  by (simp add: host_listed_def)

subsection \<open>The block list\<close>

text \<open>
  Claim C1, as amended. Take a request with a supported method.

  In \<^verbatim>\<open>proxy.c\<close> the filter runs on the resolved host name: when the URI resolves and the
  host name equals some entry of the block list up to case, the proxy sends the page for
  status 403 "Forbidden" and attempts no connection; when it equals no entry, the
  transaction goes on to the connection attempt.

  In \<^verbatim>\<open>concurrentproxy.c\<close> the filter runs before the URI is resolved and on the raw URI:
  when some entry occurs in the URI as a substring (case matters), the proxy sends the page
  for status 403, resolves nothing and attempts no connection; when no entry occurs in it,
  the transaction goes on to URI resolution and, if that succeeds, to the connection
  attempt.
\<close>

theorem blocklist_filter:
  assumes "line \<noteq> []" and "sscanf3 e (c_str line) = (method, uri, version)"
    and "supported method"
  shows "(parse_uri_seq uri = Some (hostname, pathname, port) \<longrightarrow>
            (if host_listed e hostname
             then proxy_seq e line =
                    Resolve uri # clienterror_seq ''Blocked'' ''403'' ''Forbidden''
                                    ''This site is blocked by the proxy.''
                  \<and> connections (proxy_seq e line) = []
             else proxy_seq e line = Resolve uri # forward_seq e method uri hostname pathname port
                  \<and> connections (proxy_seq e line) = [(hostname, snprintf 6 (show_int port))]))
       \<and> (if uri_listed e uri
          then proxy_conc e line =
                 clienterror_conc ''Blocked'' ''403'' ''Forbidden''
                   ''This site is blocked by the proxy.''
               \<and> connections (proxy_conc e line) = [] \<and> resolutions (proxy_conc e line) = []
          else resolutions (proxy_conc e line) = [uri]
               \<and> (parse_uri_conc uri = Some (hostname, pathname, port) \<longrightarrow>
                    proxy_conc e line = Resolve uri # forward_conc e method uri hostname pathname port
                    \<and> connections (proxy_conc e line) = [(hostname, snprintf 6 (show_int port))]))"
proof -
  note s = proxy_seq_unfold [OF assms(1,2)] and c = proxy_conc_unfold [OF assms(1,2)]
  have seq: "parse_uri_seq uri = Some (hostname, pathname, port) \<longrightarrow>
            (if host_listed e hostname
             then proxy_seq e line =
                    Resolve uri # clienterror_seq ''Blocked'' ''403'' ''Forbidden''
                                    ''This site is blocked by the proxy.''
                  \<and> connections (proxy_seq e line) = []
             else proxy_seq e line = Resolve uri # forward_seq e method uri hostname pathname port
                  \<and> connections (proxy_seq e line) = [(hostname, snprintf 6 (show_int port))])"
    using assms(3) by (simp add: s)
  have conc: "if uri_listed e uri
          then proxy_conc e line =
                 clienterror_conc ''Blocked'' ''403'' ''Forbidden''
                   ''This site is blocked by the proxy.''
               \<and> connections (proxy_conc e line) = [] \<and> resolutions (proxy_conc e line) = []
          else resolutions (proxy_conc e line) = [uri]
               \<and> (parse_uri_conc uri = Some (hostname, pathname, port) \<longrightarrow>
                    proxy_conc e line = Resolve uri # forward_conc e method uri hostname pathname port
                    \<and> connections (proxy_conc e line) = [(hostname, snprintf 6 (show_int port))])"
    using assms(3) by (simp add: c split: option.split)
  from seq conc show ?thesis by (rule conjI)
qed

text \<open>C1 at a request for the blocked host \<^verbatim>\<open>example.com\<close>.\<close>

theorem blocklist_filter_witness:
  "proxy_seq example_env (''GET http://example.com/x HTTP/1.1'' @ crlf) =
     Resolve ''http://example.com/x'' #
     clienterror_seq ''Blocked'' ''403'' ''Forbidden'' ''This site is blocked by the proxy.''
 \<and> proxy_conc example_env (''GET http://example.com/x HTTP/1.1'' @ crlf) =
     clienterror_conc ''Blocked'' ''403'' ''Forbidden'' ''This site is blocked by the proxy.''"
proof -
  have ne: "''GET http://example.com/x HTTP/1.1'' @ crlf \<noteq> []"
    by simp
  have fields: "sscanf3 example_env (c_str (''GET http://example.com/x HTTP/1.1'' @ crlf))
      = (''GET'', ''http://example.com/x'', ''HTTP/1.1'')"
    by code_simp
  have sup: "supported ''GET''"
    by (simp add: supported_def ci_equal_def)
  have parsed: "parse_uri_seq ''http://example.com/x'' = Some (''example.com'', ''/x'', 80)"
    by code_simp
  have listed: "host_listed example_env ''example.com''"
    by (simp add: host_listed_def example_env_def ci_equal_def)
  have inside: "uri_listed example_env ''http://example.com/x''"
    by code_simp
  from blocklist_filter [OF ne fields sup, of "''example.com''" "''/x''" 80] parsed listed inside
  show ?thesis by simp
qed

text \<open>
  Claim C1 as stated fails in \<^verbatim>\<open>concurrentproxy.c\<close>, in both directions. With
  \<^verbatim>\<open>example.com\<close> on the block list, the request for \<^verbatim>\<open>http://EXAMPLE.com/\<close> resolves to a
  host name that equals the entry up to case, and yet a connection to it is attempted;
  the request for \<^verbatim>\<open>http://ok.org/example.com\<close> resolves to a host name that matches no
  entry, and yet it is answered with status 403.
\<close>

theorem concurrent_filter_differs:
  "parse_uri_conc ''http://EXAMPLE.com/'' = Some (''EXAMPLE.com'', ''/'', 80)
 \<and> host_listed example_env ''EXAMPLE.com''
 \<and> connections (proxy_conc example_env (''GET http://EXAMPLE.com/ HTTP/1.1'' @ crlf))
     = [(''EXAMPLE.com'', ''80'')]
 \<and> parse_uri_conc ''http://ok.org/example.com'' = Some (''ok.org'', ''/example.com'', 80)
 \<and> \<not> host_listed example_env ''ok.org''
 \<and> proxy_conc example_env (''GET http://ok.org/example.com HTTP/1.1'' @ crlf)
     = clienterror_conc ''Blocked'' ''403'' ''Forbidden'' ''This site is blocked by the proxy.''"
  by code_simp

subsection \<open>Resolved URIs\<close>

text \<open>
  Claim C2, as amended. In both proxies \<^verbatim>\<open>http://example.com:8080/a/b\<close> resolves to host
  \<^verbatim>\<open>example.com\<close>, port 8080 and path \<^verbatim>\<open>/a/b\<close>. A URI without a path resolves with
  path \<^verbatim>\<open>/\<close> when a boundary character follows the host (\<^verbatim>\<open>http://example.com/\<close>,
  \<^verbatim>\<open>http://example.com:8080\<close>), and fails when none does (\<^verbatim>\<open>http://example.com\<close>).
  A string that does not begin with \<^verbatim>\<open>http://\<close>, compared without regard to case, fails
  in \<^verbatim>\<open>concurrentproxy.c\<close>; in \<^verbatim>\<open>proxy.c\<close> it fails when it begins with neither
  \<^verbatim>\<open>http://\<close> nor \<^verbatim>\<open>https://\<close>. When resolution fails, \<^verbatim>\<open>proxy\<close> answers with the page
  for status 400 "Bad Request" and does nothing else.
\<close>

theorem parse_uri_cases:
  "parse_uri_conc ''http://example.com:8080/a/b'' = Some (''example.com'', ''/a/b'', 8080)
 \<and> parse_uri_seq ''http://example.com:8080/a/b'' = Some (''example.com'', ''/a/b'', 8080)
 \<and> parse_uri_conc ''http://example.com/'' = Some (''example.com'', ''/'', 80)
 \<and> parse_uri_seq ''http://example.com/'' = Some (''example.com'', ''/'', 80)
 \<and> parse_uri_conc ''http://example.com:8080'' = Some (''example.com'', ''/'', 8080)
 \<and> parse_uri_seq ''http://example.com:8080'' = Some (''example.com'', ''/'', 8080)
 \<and> parse_uri_conc ''http://example.com'' = None
 \<and> parse_uri_seq ''http://example.com'' = None
 \<and> (\<not> ci_equal (take 7 uri) ''http://'' \<longrightarrow> parse_uri_conc uri = None)
 \<and> (\<not> ci_equal (take 7 uri) ''http://'' \<and> \<not> ci_equal (take 8 uri) ''https://''
       \<longrightarrow> parse_uri_seq uri = None)
 \<and> (line \<noteq> [] \<and> sscanf3 e (c_str line) = (method, uri, version) \<and> supported method
       \<and> parse_uri_seq uri = None \<longrightarrow>
       proxy_seq e line =
         Resolve uri # clienterror_seq uri ''400'' ''Bad Request'' ''Cannot parse the request'')
 \<and> (line \<noteq> [] \<and> sscanf3 e (c_str line) = (method, uri, version) \<and> supported method
       \<and> \<not> uri_listed e uri \<and> parse_uri_conc uri = None \<longrightarrow>
       proxy_conc e line =
         Resolve uri # clienterror_conc uri ''400'' ''Bad Request''
                         ''Proxy cannot parse the request'')"
proof -
  have ex1: "parse_uri_conc ''http://example.com:8080/a/b'' = Some (''example.com'', ''/a/b'', 8080)"
    "parse_uri_seq ''http://example.com:8080/a/b'' = Some (''example.com'', ''/a/b'', 8080)"
    by code_simp+
  have ex2: "parse_uri_conc ''http://example.com/'' = Some (''example.com'', ''/'', 80)"
    "parse_uri_seq ''http://example.com/'' = Some (''example.com'', ''/'', 80)"
    by code_simp+
  have ex3: "parse_uri_conc ''http://example.com:8080'' = Some (''example.com'', ''/'', 8080)"
    "parse_uri_seq ''http://example.com:8080'' = Some (''example.com'', ''/'', 8080)"
    by code_simp+
  have ex4: "parse_uri_conc ''http://example.com'' = None" "parse_uri_seq ''http://example.com'' = None"
    by code_simp+
  have c: "\<not> ci_equal (take 7 uri) ''http://'' \<longrightarrow> parse_uri_conc uri = None"
    by (simp add: parse_uri_conc_def strncasecmp_eq_0)
  have s: "\<not> ci_equal (take 7 uri) ''http://'' \<and> \<not> ci_equal (take 8 uri) ''https://''
       \<longrightarrow> parse_uri_seq uri = None"
    by (simp add: parse_uri_seq_def strncasecmp_eq_0)
  have bad_seq: "proxy_seq e line =
      Resolve uri # clienterror_seq uri ''400'' ''Bad Request'' ''Cannot parse the request''"
    if "line \<noteq> []" "sscanf3 e (c_str line) = (method, uri, version)" "supported method"
      "parse_uri_seq uri = None"
    using that(3,4) by (simp add: proxy_seq_unfold [OF that(1,2)])
  have bad_conc: "proxy_conc e line =
      Resolve uri # clienterror_conc uri ''400'' ''Bad Request'' ''Proxy cannot parse the request''"
    if "line \<noteq> []" "sscanf3 e (c_str line) = (method, uri, version)" "supported method"
      "\<not> uri_listed e uri" "parse_uri_conc uri = None"
    using that(3,4,5) by (simp add: proxy_conc_unfold [OF that(1,2)])
  from ex1 ex2 ex3 ex4 c s bad_seq bad_conc show ?thesis by blast
qed

text \<open>The scheme test of C2 at \<^verbatim>\<open>ftp://ok.org/x\<close>, and the response to a GET for it.\<close>

theorem parse_uri_cases_witness:
  "parse_uri_conc ''ftp://ok.org/x'' = None \<and> parse_uri_seq ''ftp://ok.org/x'' = None
 \<and> proxy_seq example_env (''GET ftp://ok.org/x HTTP/1.1'' @ crlf) =
      Resolve ''ftp://ok.org/x'' #
      clienterror_seq ''ftp://ok.org/x'' ''400'' ''Bad Request'' ''Cannot parse the request''
 \<and> proxy_conc example_env (''GET ftp://ok.org/x HTTP/1.1'' @ crlf) =
      Resolve ''ftp://ok.org/x'' #
      clienterror_conc ''ftp://ok.org/x'' ''400'' ''Bad Request''
        ''Proxy cannot parse the request''"
proof -
  have a: "\<not> ci_equal (take 7 ''ftp://ok.org/x'') ''http://''"
    and b: "\<not> ci_equal (take 8 ''ftp://ok.org/x'') ''https://''"
    by (simp_all add: ci_equal_def tolower_def)
  have ne: "''GET ftp://ok.org/x HTTP/1.1'' @ crlf \<noteq> []"
    by simp
  have fields: "sscanf3 example_env (c_str (''GET ftp://ok.org/x HTTP/1.1'' @ crlf))
      = (''GET'', ''ftp://ok.org/x'', ''HTTP/1.1'')"
    by code_simp
  have m: "supported ''GET''"
    by (simp add: supported_def ci_equal_def)
  have u: "\<not> uri_listed example_env ''ftp://ok.org/x''"
    by code_simp
  from parse_uri_cases
    [of "''ftp://ok.org/x''" "''GET ftp://ok.org/x HTTP/1.1'' @ crlf" example_env "''GET''"
      "''HTTP/1.1''"]
    a b ne fields m u
  show ?thesis by blast
qed

text \<open>Claim C2 as stated fails: \<^verbatim>\<open>http://example.com\<close> does not resolve with path
  \<^verbatim>\<open>/\<close>; \<^verbatim>\<open>strpbrk\<close> finds no boundary character and \<^verbatim>\<open>parse_uri\<close> returns \<open>-1\<close>.\<close>

theorem parse_uri_no_boundary_fails:
  "parse_uri_conc ''http://example.com'' = None \<and> parse_uri_seq ''http://example.com'' = None"
  by code_simp

text \<open>
  Claim C5 at a URI with the scheme \<^verbatim>\<open>https://\<close>, which \<^verbatim>\<open>proxy.c\<close> accepts: the host name
  is taken from offset 7, not from behind the eight characters of the prefix, so it starts
  at the second slash and is empty, and the real host name ends up in the path. Without
  any boundary character behind the prefix the call still succeeds.
\<close>

theorem parse_uri_seq_https_host:
  "parse_uri_seq ''https://example.com/a'' = Some ('''', ''/example.com/a'', 80)
 \<and> parse_uri_seq ''https://example.com'' = Some ('''', ''/example.com'', 80)"
  by code_simp

text \<open>
  Claim C10, as amended. When the host name ends at a colon and \<^verbatim>\<open>atoi\<close> finds no number
  behind it (after the white space and the sign it skips there is no decimal digit; in
  particular when the next character is neither a digit, a sign nor white space, as in
  \<^verbatim>\<open>http://host:/path\<close>), \<^verbatim>\<open>parse_uri\<close> succeeds and the port is 0, not 80.
\<close>

theorem port_zero_without_number:
  assumes "ci_equal scheme ''http://''"
    and "set host \<inter> set host_delims = {}"
    and "no_number rest"
  shows "map_option (snd \<circ> snd) (parse_uri_conc (scheme @ host @ CHR '':'' # rest)) = Some 0
       \<and> map_option (snd \<circ> snd) (parse_uri_seq (scheme @ host @ CHR '':'' # rest)) = Some 0
       \<and> map_option fst (parse_uri_conc (scheme @ host @ CHR '':'' # rest)) = Some host
       \<and> map_option fst (parse_uri_seq (scheme @ host @ CHR '':'' # rest)) = Some host"
proof -
  from assms(1) have len: "length scheme = 7"
    by (auto dest: ci_equal_length)
  then have tk: "take 7 (scheme @ host @ CHR '':'' # rest) = scheme"
    and dr: "drop 7 (scheme @ host @ CHR '':'' # rest) = host @ CHR '':'' # rest"
    by simp_all
  have pb: "strpbrk (host @ CHR '':'' # rest) host_delims = Some (length host)"
    by (rule strpbrk_first [OF assms(2)]) (simp add: host_delims_def)
  have pf: "map_option (snd \<circ> snd) (parse_from (host @ CHR '':'' # rest)) = Some 0"
    "map_option fst (parse_from (host @ CHR '':'' # rest)) = Some host"
    by (simp_all add: parse_from_def pb Let_def atoi_no_number [OF assms(3)])
  show ?thesis
    using assms(1) pf
    unfolding parse_uri_conc_def parse_uri_seq_def strncasecmp_eq_0 tk dr
    by (simp add: len)
qed

text \<open>C10 at \<^verbatim>\<open>http://host:/path\<close>.\<close>

theorem port_zero_without_number_witness:
  "map_option (snd \<circ> snd) (parse_uri_conc (''http://'' @ ''host'' @ CHR '':'' # ''/path'')) = Some 0
 \<and> map_option (snd \<circ> snd) (parse_uri_seq (''http://'' @ ''host'' @ CHR '':'' # ''/path'')) = Some 0"
proof -
  have a: "ci_equal ''http://'' ''http://''" by (simp add: ci_equal_def)
  have b: "set ''host'' \<inter> set host_delims = {}" by (simp add: host_delims_def CR_def LF_def)
  have c: "no_number ''/path''" by (simp add: no_number_def isspace_def isdigit_def)
  from port_zero_without_number [OF a b c] show ?thesis by blast
qed

text \<open>Claim C10 as stated fails: in \<^verbatim>\<open>http://host:+8080/path\<close> the character behind the
  colon is not a decimal digit, yet \<^verbatim>\<open>atoi\<close> reads the sign and the port is 8080.\<close>

theorem port_after_sign_not_zero:
  "parse_uri_conc ''http://host:+8080/path'' = Some (''host'', ''/path'', 8080)
 \<and> parse_uri_seq ''http://host:+8080/path'' = Some (''host'', ''/path'', 8080)
 \<and> \<not> isdigit CHR ''+''"
  by code_simp

subsection \<open>The forwarded request\<close>

text \<open>The two \<^verbatim>\<open>snprintf\<close> calls together store the first \<open>MAXLINE - 1\<close> characters of
  the whole text.\<close>

lemma snprintf_twice:
  "0 < n \<Longrightarrow>
   snprintf n s @ snprintf (n - length (snprintf n s)) t = take (n - 1) (s @ t)"
  by (cases "length s \<le> n - 1") (auto simp: snprintf_def min_def)

lemma upstream_request_seq_text:
  "0 < n \<Longrightarrow>
   upstream_request_seq n method pathname hostname =
     take (n - 1) (request_head method pathname hostname @ user_agent_hdr @ request_tail)"
  using snprintf_twice [of n]
  by (simp add: upstream_request_seq_def request_tail_def Let_def)

lemma upstream_request_conc_text:
  "0 < n \<Longrightarrow>
   upstream_request_conc n method pathname hostname =
     take (n - 1)
       (request_head method pathname hostname @ (''User-Agent: '' @ user_agent_hdr) @ request_tail)"
  using snprintf_twice [of n]
  by (simp add: upstream_request_conc_def request_tail_def Let_def)

lemma user_agent_lines:
  "user_agent_line user_agent_hdr" "user_agent_line (''User-Agent: '' @ user_agent_hdr)"
  by (simp_all add: user_agent_line_def user_agent_hdr_def crlf_def CR_def LF_def suffix_def)

lemma request_head_text:
  "pathname \<noteq> [] \<Longrightarrow>
   request_head method pathname hostname @ ua @ request_tail
     = request_text method pathname hostname ua"
  by (simp add: request_head_def request_text_def)

text \<open>
  Claim C3, as amended. In a transaction that reaches the server, one write sends the
  first \<open>MAXLINE - 1\<close> bytes of the text
  \<^verbatim>\<open><method> <path> HTTP/1.0\r\nHost: <hostname>\r\n\<close>, one fixed \<^verbatim>\<open>User-Agent\<close> header line,
  \<^verbatim>\<open>Connection: close\r\nProxy-Connection: close\r\n\r\n\<close>; so the request is exactly
  this text whenever the text is shorter than \<open>MAXLINE\<close> (the size of an array, hence
  positive). The version the client declared does not occur in it.
\<close>

theorem upstream_request_format:
  assumes "line \<noteq> []" and "sscanf3 e (c_str line) = (method, uri, version)"
    and "supported method"
    and "open_clientfd e hostname (snprintf 6 (show_int port)) = Some reads"
    and "0 < MAXLINE e"
  shows "(parse_uri_seq uri = Some (hostname, pathname, port) \<and> \<not> host_listed e hostname \<longrightarrow>
            upstream_writes (proxy_seq e line) =
              [take (MAXLINE e - 1) (request_text method pathname hostname user_agent_hdr)]
          \<and> (length (request_text method pathname hostname user_agent_hdr) < MAXLINE e \<longrightarrow>
               upstream_writes (proxy_seq e line) =
                 [request_text method pathname hostname user_agent_hdr]))
       \<and> (\<not> uri_listed e uri \<and> parse_uri_conc uri = Some (hostname, pathname, port) \<longrightarrow>
            upstream_writes (proxy_conc e line) =
              [take (MAXLINE e - 1)
                 (request_text method pathname hostname (''User-Agent: '' @ user_agent_hdr))]
          \<and> (length (request_text method pathname hostname (''User-Agent: '' @ user_agent_hdr))
                < MAXLINE e \<longrightarrow>
               upstream_writes (proxy_conc e line) =
                 [request_text method pathname hostname (''User-Agent: '' @ user_agent_hdr)]))
       \<and> user_agent_line user_agent_hdr
       \<and> user_agent_line (''User-Agent: '' @ user_agent_hdr)"
proof -
  have txt_seq: "upstream_request_seq (MAXLINE e) method pathname hostname =
      take (MAXLINE e - 1) (request_text method pathname hostname user_agent_hdr)"
    if "pathname \<noteq> []"
    by (simp only: upstream_request_seq_text [OF assms(5)] request_head_text [OF that])
  have txt_conc: "upstream_request_conc (MAXLINE e) method pathname hostname =
      take (MAXLINE e - 1)
        (request_text method pathname hostname (''User-Agent: '' @ user_agent_hdr))"
    if "pathname \<noteq> []"
    by (simp only: upstream_request_conc_text [OF assms(5)] request_head_text [OF that])
  have seq: "upstream_writes (proxy_seq e line) =
      [take (MAXLINE e - 1) (request_text method pathname hostname user_agent_hdr)]"
    if "parse_uri_seq uri = Some (hostname, pathname, port)" "\<not> host_listed e hostname"
    unfolding proxy_seq_unfold [OF assms(1,2)]
    using that assms(3)
    by (simp add: upstream_writes_forward_ok [OF assms(4)]
        txt_seq [OF parse_uri_path(1) [OF that(1)]])
  have conc: "upstream_writes (proxy_conc e line) =
      [take (MAXLINE e - 1)
         (request_text method pathname hostname (''User-Agent: '' @ user_agent_hdr))]"
    if "\<not> uri_listed e uri" "parse_uri_conc uri = Some (hostname, pathname, port)"
    unfolding proxy_conc_unfold [OF assms(1,2)]
    using that assms(3)
    by (simp add: upstream_writes_forward_ok [OF assms(4)]
        txt_conc [OF parse_uri_path(2) [OF that(2)]])
  from seq conc user_agent_lines show ?thesis
    by simp
qed

text \<open>C3 at a GET for \<^verbatim>\<open>http://ok.org/a\<close> declared as HTTP/1.1.\<close>

theorem upstream_request_format_witness:
  "upstream_writes (proxy_seq example_env (''GET http://ok.org/a HTTP/1.1'' @ crlf)) =
     [''GET /a HTTP/1.0'' @ crlf @ ''Host: ok.org'' @ crlf @ user_agent_hdr
      @ ''Connection: close'' @ crlf @ ''Proxy-Connection: close'' @ crlf @ crlf]"
proof -
  let ?reads = "[''HTTP/1.0 200 OK'' @ crlf, crlf, ''hi'']"
  have ne: "''GET http://ok.org/a HTTP/1.1'' @ crlf \<noteq> []"
    by simp
  have ok: "sscanf3 example_env (c_str (''GET http://ok.org/a HTTP/1.1'' @ crlf))
      = (''GET'', ''http://ok.org/a'', ''HTTP/1.1'')"
    by code_simp
  have m: "supported ''GET''"
    by (simp add: supported_def ci_equal_def)
  have c: "open_clientfd example_env ''ok.org'' (snprintf 6 (show_int 80)) = Some ?reads"
    by (simp add: example_env_def)
  have p: "parse_uri_seq ''http://ok.org/a'' = Some (''ok.org'', ''/a'', 80)"
    by code_simp
  have f: "\<not> host_listed example_env ''ok.org''"
    by code_simp
  have pos: "0 < MAXLINE example_env"
    by (simp add: example_env_def)
  have fits: "length (request_text ''GET'' ''/a'' ''ok.org'' user_agent_hdr) < MAXLINE example_env"
    by (simp add: request_text_def request_tail_def user_agent_hdr_def crlf_def example_env_def)
  from upstream_request_format [OF ne ok m c pos, of "''/a''"] p f fits
  have "upstream_writes (proxy_seq example_env (''GET http://ok.org/a HTTP/1.1'' @ crlf)) =
      [request_text ''GET'' ''/a'' ''ok.org'' user_agent_hdr]"
    by blast
  then show ?thesis
    by (simp add: request_text_def request_tail_def)
qed

lemma tokens_run:
  "\<forall>c\<in>set w. \<not> isspace c \<Longrightarrow> tokens (w @ rest) cur = tokens rest (cur @ w)"
  by (induction w arbitrary: cur) auto

lemma c_str_id: "NUL \<notin> set s \<Longrightarrow> c_str s = s"
  by (auto simp: c_str_def takeWhile_eq_all_conv)

lemma long_path_facts:
  "length long_path = 8151" "NUL \<notin> set long_path" "\<forall>c\<in>set long_path. \<not> isspace c"
  "set long_path \<inter> set host_delims = {CHR ''/''}"
  by (auto simp: long_path_def NUL_def isspace_def host_delims_def CR_def LF_def)

text \<open>
  Claim C3 as stated fails for a request whose text does not fit the buffer. With
  \<open>MAXLINE = 8192\<close> and the request line \<open>long_line\<close>, \<^verbatim>\<open>proxy.c\<close> sends the 8180 bytes up to the \<^verbatim>\<open>Host\<close> line
  and then only \<^verbatim>\<open>User-Agent:\<close>, 8191 bytes in all; the rest of the header line and the
  closing lines are cut off.
\<close>

theorem upstream_request_truncated:
  "length long_line = 8179
 \<and> upstream_writes (proxy_seq example_env long_line) =
     [''GET '' @ long_path @ '' HTTP/1.0'' @ crlf @ ''Host: ok.org'' @ crlf @ ''User-Agent:'']
 \<and> map length (upstream_writes (proxy_seq example_env long_line)) = [8191]"
proof -
  let ?uri = "''http://ok.org'' @ long_path"
  let ?reads = "[''HTTP/1.0 200 OK'' @ crlf, crlf, ''hi'']"
  have len: "length long_line = 8179"
    by (simp add: long_line_def long_path_facts crlf_def)
  then have ne: "long_line \<noteq> []"
    by auto
  have cs: "c_str long_line = long_line"
    by (rule c_str_id)
      (simp add: long_line_def long_path_facts(2) [unfolded NUL_def] crlf_def NUL_def CR_def LF_def)
  have toks: "tokens long_line [] = [''GET'', ?uri, ''HTTP/1.1'']"
    unfolding long_line_def
    by (simp add: isspace_def crlf_def CR_def LF_def tokens_run [OF long_path_facts(3)])
  have fields: "sscanf3 example_env (c_str long_line) = (''GET'', ?uri, ''HTTP/1.1'')"
    by (simp add: sscanf3_def cs toks)
  have m: "supported ''GET''"
    by (simp add: supported_def ci_equal_def)
  have pb: "strpbrk (''ok.org'' @ long_path) host_delims = Some 6"
    by (simp add: host_delims_def CR_def LF_def long_path_def)
  have sc: "strchr (''ok.org'' @ long_path) CHR ''/'' = Some 6"
    by (simp add: long_path_def)
  have p: "parse_uri_seq ?uri = Some (''ok.org'', long_path, 80)"
    using pb sc
    by (simp add: parse_uri_seq_def strncasecmp_def tolower_def parse_from_def long_path_def)
  have f: "\<not> host_listed example_env ''ok.org''"
    by code_simp
  have c: "open_clientfd example_env ''ok.org'' (snprintf 6 (show_int 80)) = Some ?reads"
    by (simp add: example_env_def)
  have trace: "proxy_seq example_env long_line =
      Resolve ?uri # forward_seq example_env ''GET'' ?uri ''ok.org'' long_path 80"
    unfolding proxy_seq_unfold [OF ne fields] using m p f by simp
  have ne_path: "long_path \<noteq> []"
    by (simp add: long_path_def)
  have size: "MAXLINE example_env = 8192"
    by (simp add: example_env_def)
  have sent: "upstream_request_seq 8192 ''GET'' long_path ''ok.org'' =
      ''GET '' @ long_path @ '' HTTP/1.0'' @ crlf @ ''Host: ok.org'' @ crlf @ ''User-Agent:''"
    by (subst upstream_request_seq_text)
      (simp_all add: request_head_def ne_path long_path_facts(1) request_tail_def
        user_agent_hdr_def crlf_def)
  have w: "upstream_writes (proxy_seq example_env long_line) =
     [''GET '' @ long_path @ '' HTTP/1.0'' @ crlf @ ''Host: ok.org'' @ crlf @ ''User-Agent:'']"
    unfolding trace by (simp add: upstream_writes_forward_ok [OF c] size sent)
  have l: "map length (upstream_writes (proxy_seq example_env long_line)) = [8191]"
    unfolding w by (simp add: long_path_facts(1) crlf_def)
  from len w l show ?thesis by blast
qed

subsection \<open>Unsupported methods\<close>

text \<open>
  Claim C4. A request whose method token is neither GET nor HEAD, compared without regard
  to case, is answered with the error page for status 501 "Not Implemented" and nothing
  else happens: in both proxies the whole transaction consists of the two writes of
  \<^verbatim>\<open>clienterror\<close>, \<^verbatim>\<open>parse_uri\<close> is not called and no connection is attempted.
\<close>

theorem unsupported_method_501:
  assumes "line \<noteq> []"
    and "sscanf3 e (c_str line) = (method, uri, version)"
    and "\<not> ci_equal method ''GET''" and "\<not> ci_equal method ''HEAD''"
  shows "proxy_seq e line =
           clienterror_seq method ''501'' ''Not Implemented'' ''Method not implemented''
       \<and> proxy_conc e line =
           clienterror_conc method ''501'' ''Not Implemented''
             ''This method is not implemented by the proxy''
       \<and> prefix (''HTTP/1.0 501 Not Implemented'' @ crlf) (hd (client_writes (proxy_seq e line)))
       \<and> prefix (''HTTP/1.0 501 Not Implemented'' @ crlf) (hd (client_writes (proxy_conc e line)))
       \<and> resolutions (proxy_seq e line) = [] \<and> resolutions (proxy_conc e line) = []
       \<and> connections (proxy_seq e line) = [] \<and> connections (proxy_conc e line) = []"
proof -
  from assms have s: "proxy_seq e line =
      clienterror_seq method ''501'' ''Not Implemented'' ''Method not implemented''"
    by (simp add: proxy_seq_def strcasecmp_eq_0)
  from assms have c: "proxy_conc e line =
      clienterror_conc method ''501'' ''Not Implemented''
        ''This method is not implemented by the proxy''"
    by (simp add: proxy_conc_def strcasecmp_eq_0)
  show ?thesis
    unfolding s c
    by (simp add: clienterror_seq_def clienterror_conc_def clienterror_hdr_def Let_def)
qed

theorem unsupported_method_501_witness:
  "proxy_seq example_env (''POST http://ok.org/ HTTP/1.1'' @ crlf) =
           clienterror_seq ''POST'' ''501'' ''Not Implemented'' ''Method not implemented''
   \<and> resolutions (proxy_conc example_env (''POST http://ok.org/ HTTP/1.1'' @ crlf)) = []"
proof -
  have ne: "''POST http://ok.org/ HTTP/1.1'' @ crlf \<noteq> []"
    by simp
  have fields: "sscanf3 example_env (c_str (''POST http://ok.org/ HTTP/1.1'' @ crlf))
      = (''POST'', ''http://ok.org/'', ''HTTP/1.1'')"
    by code_simp
  have m1: "\<not> ci_equal ''POST'' ''GET''" and m2: "\<not> ci_equal ''POST'' ''HEAD''"
    by (simp_all add: ci_equal_def tolower_def)
  from unsupported_method_501 [OF ne fields m1 m2] show ?thesis
    by blast
qed

subsection \<open>The byte count\<close>

lemma sint_count: "n < 2 ^ 31 \<Longrightarrow> sint (word_of_nat n :: 32 word) = int n"
  by (simp add: signed_of_nat signed_take_bit_int_eq_self)

lemma forwarded_replicate: "c \<noteq> [] \<Longrightarrow> forwarded (replicate k c) = replicate k c"
  by (simp add: forwarded_def)

text \<open>
  Claim C6, as amended. In a completed transaction every read from the server before the
  first empty one is written to the client, and the log line carries the sum of their
  lengths reduced to a signed 32-bit value; so, whenever fewer than \<open>2\<^sup>3\<^sup>1\<close> bytes are
  forwarded, the count in the log is exactly the number of bytes written to the client.
\<close>

theorem logged_count:
  assumes "line \<noteq> []" and "sscanf3 e (c_str line) = (method, uri, version)"
    and "supported method"
    and "open_clientfd e hostname (snprintf 6 (show_int port)) = Some reads"
    and "sum_list (map length (forwarded reads)) < 2 ^ 31"
  shows "(parse_uri_seq uri = Some (hostname, pathname, port) \<and> \<not> host_listed e hostname \<longrightarrow>
            client_writes (proxy_seq e line) = forwarded reads
          \<and> log_lines (proxy_seq e line) =
              [''['' @ time_str e @ ''] '' @ host_ip e @ '' '' @ uri @ '' ''
               @ show_int (int (sum_list (map length (client_writes (proxy_seq e line)))))
               @ [LF]])
       \<and> (\<not> uri_listed e uri \<and> parse_uri_conc uri = Some (hostname, pathname, port) \<longrightarrow>
            client_writes (proxy_conc e line) = forwarded reads
          \<and> log_lines (proxy_conc e line) =
              [''['' @ time_str e @ ''] '' @ host_ip e @ '' '' @ uri @ '' ''
               @ show_int (int (sum_list (map length (client_writes (proxy_conc e line)))))
               @ [LF]])"
  unfolding proxy_seq_unfold [OF assms(1,2)] proxy_conc_unfold [OF assms(1,2)]
  using assms(3)
  by (simp add: log_lines_forward_ok [OF assms(4)] client_writes_forward_ok [OF assms(4)]
      format_log_entry_def sint_count [OF assms(5)])

text \<open>C6 at a response of 21 bytes.\<close>

theorem logged_count_witness:
  "client_writes (proxy_seq example_env (''GET http://ok.org/a HTTP/1.1'' @ crlf)) =
     [''HTTP/1.0 200 OK'' @ crlf, crlf, ''hi'']
 \<and> log_lines (proxy_seq example_env (''GET http://ok.org/a HTTP/1.1'' @ crlf)) =
     [''[Mon 02 Nov 2026 10:00:00 UTC] 127.0.0.1 http://ok.org/a 21'' @ [LF]]"
proof -
  let ?reads = "[''HTTP/1.0 200 OK'' @ crlf, crlf, ''hi'']"
  have ne: "''GET http://ok.org/a HTTP/1.1'' @ crlf \<noteq> []"
    by simp
  have ok: "sscanf3 example_env (c_str (''GET http://ok.org/a HTTP/1.1'' @ crlf))
      = (''GET'', ''http://ok.org/a'', ''HTTP/1.1'')"
    by code_simp
  have m: "supported ''GET''"
    by (simp add: supported_def ci_equal_def)
  have c: "open_clientfd example_env ''ok.org'' (snprintf 6 (show_int 80)) = Some ?reads"
    by (simp add: example_env_def)
  have fw: "forwarded ?reads = ?reads"
    by (simp add: forwarded_def crlf_def)
  have b: "sum_list (map length (forwarded ?reads)) < 2 ^ 31"
    unfolding fw by (simp add: crlf_def)
  have p: "parse_uri_seq ''http://ok.org/a'' = Some (''ok.org'', ''/a'', 80)"
    by code_simp
  have f: "\<not> host_listed example_env ''ok.org''"
    by code_simp
  have l: "''['' @ time_str example_env @ ''] '' @ host_ip example_env @ '' '' @ ''http://ok.org/a''
      @ '' '' @ show_int (int (sum_list (map length ?reads)))
      @ [LF] = ''[Mon 02 Nov 2026 10:00:00 UTC] 127.0.0.1 http://ok.org/a 21'' @ [LF]"
    by code_simp
  from logged_count [OF ne ok m c b, of "''/a''"] p f
  have "client_writes (proxy_seq example_env (''GET http://ok.org/a HTTP/1.1'' @ crlf)) = ?reads
      \<and> log_lines (proxy_seq example_env (''GET http://ok.org/a HTTP/1.1'' @ crlf)) =
        [''['' @ time_str example_env @ ''] '' @ host_ip example_env @ '' '' @ ''http://ok.org/a''
          @ '' '' @ show_int (int (sum_list (map length ?reads))) @ [LF]]"
    unfolding fw by auto
  then show ?thesis unfolding l .
qed

text \<open>
  Claim C6 as stated fails once \<open>2\<^sup>3\<^sup>1\<close> bytes or more are forwarded: \<^verbatim>\<open>size\<close> is an
  \<^verbatim>\<open>int\<close>. With a server that sends 524288 lines of 4096 bytes each, 2147483648 bytes
  are written to the client and the log line says \<open>-2147483648\<close>.
\<close>

theorem logged_count_wraps:
  "sum_list (map length (client_writes (proxy_seq big_env (''GET http://ok.org/a HTTP/1.1'' @ crlf))))
     = 2147483648
 \<and> log_lines (proxy_seq big_env (''GET http://ok.org/a HTTP/1.1'' @ crlf)) =
     [''[Mon 02 Nov 2026 10:00:00 UTC] 127.0.0.1 http://ok.org/a -2147483648'' @ [LF]]"
proof -
  have ne: "''GET http://ok.org/a HTTP/1.1'' @ crlf \<noteq> []"
    by simp
  have "sscanf3 example_env (c_str (''GET http://ok.org/a HTTP/1.1'' @ crlf))
      = (''GET'', ''http://ok.org/a'', ''HTTP/1.1'')"
    by code_simp
  then have ok: "sscanf3 big_env (c_str (''GET http://ok.org/a HTTP/1.1'' @ crlf))
      = (''GET'', ''http://ok.org/a'', ''HTTP/1.1'')"
    by (simp add: big_env_def)
  have m: "supported ''GET''"
    by (simp add: supported_def ci_equal_def)
  have p: "parse_uri_seq ''http://ok.org/a'' = Some (''ok.org'', ''/a'', 80)"
    by code_simp
  have "\<not> host_listed example_env ''ok.org''"
    by code_simp
  then have f: "\<not> host_listed big_env ''ok.org''"
    by (simp add: big_env_def)
  have c: "open_clientfd big_env ''ok.org'' (snprintf 6 (show_int 80)) = Some big_response"
    by (simp add: big_env_def)
  have fw: "forwarded big_response = big_response"
    unfolding big_response_def by (rule forwarded_replicate) simp
  have total: "sum_list (map length big_response) = 2147483648"
    by (simp add: big_response_def sum_list_replicate)
  have shown: "show_int (- 2147483648) = ''-2147483648''"
    by (simp add: show_int_def show_nat.simps digit_char_def)
  have env: "time_str big_env = ''Mon 02 Nov 2026 10:00:00 UTC''" "host_ip big_env = ''127.0.0.1''"
    by (simp_all add: big_env_def example_env_def)
  have trace: "proxy_seq big_env (''GET http://ok.org/a HTTP/1.1'' @ crlf) =
      Resolve ''http://ok.org/a'' # forward_seq big_env ''GET'' ''http://ok.org/a'' ''ok.org'' ''/a'' 80"
    unfolding proxy_seq_unfold [OF ne ok] using m p f by simp
  show ?thesis
    unfolding trace
    by (simp add: client_writes_forward_ok [OF c] log_lines_forward_ok [OF c] fw total
        format_log_entry_def shown env)
qed

subsection \<open>Error responses\<close>

text \<open>
  Claim C7. Each of the four errors the proxy recovers from (unsupported method, URI that
  does not resolve, blocked host, failed connection) makes it send, in both files, a
  response that consists of an HTTP/1.0 status line with the code and reason of that
  error, a \<^verbatim>\<open>Content-type\<close> header and a \<^verbatim>\<open>Content-length\<close> header whose value is the
  decimal numeral of the length of the body, followed by an HTML body that contains the
  code, the reason, the long description and the cause.
\<close>

theorem error_responses:
  assumes "line \<noteq> []" and "sscanf3 e (c_str line) = (method, uri, version)"
  shows "(\<not> supported method \<longrightarrow>
            error_page ''501'' ''Not Implemented'' ''Method not implemented'' method
              (client_writes (proxy_seq e line))
          \<and> error_page ''501'' ''Not Implemented'' ''This method is not implemented by the proxy''
              method (client_writes (proxy_conc e line)))
       \<and> (supported method \<and> parse_uri_seq uri = None \<longrightarrow>
            error_page ''400'' ''Bad Request'' ''Cannot parse the request'' uri
              (client_writes (proxy_seq e line)))
       \<and> (supported method \<and> \<not> uri_listed e uri \<and> parse_uri_conc uri = None \<longrightarrow>
            error_page ''400'' ''Bad Request'' ''Proxy cannot parse the request'' uri
              (client_writes (proxy_conc e line)))
       \<and> (supported method \<and> parse_uri_seq uri = Some (hostname, pathname, port)
            \<and> host_listed e hostname \<longrightarrow>
            error_page ''403'' ''Forbidden'' ''This site is blocked by the proxy.'' ''Blocked''
              (client_writes (proxy_seq e line)))
       \<and> (supported method \<and> uri_listed e uri \<longrightarrow>
            error_page ''403'' ''Forbidden'' ''This site is blocked by the proxy.'' ''Blocked''
              (client_writes (proxy_conc e line)))
       \<and> (supported method \<and> parse_uri_seq uri = Some (hostname, pathname, port)
            \<and> \<not> host_listed e hostname
            \<and> open_clientfd e hostname (snprintf 6 (show_int port)) = None \<longrightarrow>
            error_page ''404'' ''Not Found'' ''Cannot connect to the host'' hostname
              (client_writes (proxy_seq e line)))
       \<and> (supported method \<and> \<not> uri_listed e uri
            \<and> parse_uri_conc uri = Some (hostname, pathname, port)
            \<and> open_clientfd e hostname (snprintf 6 (show_int port)) = None \<longrightarrow>
            error_page ''404'' ''Not found'' ''Cannot connect to the host'' hostname
              (client_writes (proxy_conc e line)))"
  unfolding proxy_seq_unfold [OF assms] proxy_conc_unfold [OF assms]
  by (simp add: clienterror_seq_page clienterror_conc_page forward_seq_fail forward_conc_fail)

text \<open>C7 at a POST request to \<^verbatim>\<open>proxy.c\<close> and at a request to \<^verbatim>\<open>concurrentproxy.c\<close> for a
  host that cannot be reached, with the bytes of the two responses: bodies of 156 and of
  150 bytes, announced as such.\<close>

theorem error_responses_witness:
  "error_page ''501'' ''Not Implemented'' ''Method not implemented'' ''POST''
     (client_writes (proxy_seq example_env (''POST http://ok.org/ HTTP/1.1'' @ crlf)))
 \<and> error_page ''404'' ''Not found'' ''Cannot connect to the host'' ''down.org''
     (client_writes (proxy_conc example_env (''GET http://down.org/ HTTP/1.1'' @ crlf)))
 \<and> client_writes (proxy_seq example_env (''POST http://ok.org/ HTTP/1.1'' @ crlf)) =
     [''HTTP/1.0 501 Not Implemented'' @ [CHR 0x0D, CHR 0x0A]
      @ ''Content-type: text/html'' @ [CHR 0x0D, CHR 0x0A]
      @ ''Content-length: 156'' @ [CHR 0x0D, CHR 0x0A, CHR 0x0D, CHR 0x0A],
      ''<html><title>Proxy Error</title><body bgcolor='' @ [CHR 0x22] @ ''ffffff'' @ [CHR 0x22]
      @ ''>501: Not Implemented<p>Method not implemented: POST''
      @ ''<hr><em>The CS:APP Proxy Server</em></body></html>'']
 \<and> client_writes (proxy_conc example_env (''GET http://down.org/ HTTP/1.1'' @ crlf)) =
     [''HTTP/1.0 404 Not found'' @ [CHR 0x0D, CHR 0x0A]
      @ ''Content-type: text/html'' @ [CHR 0x0D, CHR 0x0A]
      @ ''Content-length: 150'' @ [CHR 0x0D, CHR 0x0A, CHR 0x0D, CHR 0x0A],
      ''<html><title>Proxy Error</title><body bgcolor=ffffff>'' @ [CHR 0x0D, CHR 0x0A]
      @ ''404: Not found'' @ [CHR 0x0D, CHR 0x0A]
      @ ''<p>Cannot connect to the host: down.org'' @ [CHR 0x0D, CHR 0x0A]
      @ ''<hr><em>The CS:APP Proxy Server</em>'' @ [CHR 0x0D, CHR 0x0A]]"
proof -
  have ne: "''POST http://ok.org/ HTTP/1.1'' @ crlf \<noteq> []"
    "''GET http://down.org/ HTTP/1.1'' @ crlf \<noteq> []"
    by simp_all
  have post: "sscanf3 example_env (c_str (''POST http://ok.org/ HTTP/1.1'' @ crlf))
      = (''POST'', ''http://ok.org/'', ''HTTP/1.1'')"
    by code_simp
  have get: "sscanf3 example_env (c_str (''GET http://down.org/ HTTP/1.1'' @ crlf))
      = (''GET'', ''http://down.org/'', ''HTTP/1.1'')"
    by code_simp
  have m: "\<not> supported ''POST''" "supported ''GET''"
    by (simp_all add: supported_def ci_equal_def tolower_def)
  have u: "\<not> uri_listed example_env ''http://down.org/''"
    by code_simp
  have p: "parse_uri_conc ''http://down.org/'' = Some (''down.org'', ''/'', 80)"
    by code_simp
  have d: "open_clientfd example_env ''down.org'' (snprintf 6 (show_int 80)) = None"
    by (simp add: example_env_def)
  from error_responses [OF ne(1) post] m(1)
  have 1: "error_page ''501'' ''Not Implemented'' ''Method not implemented'' ''POST''
     (client_writes (proxy_seq example_env (''POST http://ok.org/ HTTP/1.1'' @ crlf)))"
    by blast
  from error_responses [OF ne(2) get, of "''down.org''" "''/''" 80] m(2) u p d
  have 2: "error_page ''404'' ''Not found'' ''Cannot connect to the host'' ''down.org''
     (client_writes (proxy_conc example_env (''GET http://down.org/ HTTP/1.1'' @ crlf)))"
    by blast
  have 3: "client_writes (proxy_seq example_env (''POST http://ok.org/ HTTP/1.1'' @ crlf)) =
     [''HTTP/1.0 501 Not Implemented'' @ [CHR 0x0D, CHR 0x0A]
      @ ''Content-type: text/html'' @ [CHR 0x0D, CHR 0x0A]
      @ ''Content-length: 156'' @ [CHR 0x0D, CHR 0x0A, CHR 0x0D, CHR 0x0A],
      ''<html><title>Proxy Error</title><body bgcolor='' @ [CHR 0x22] @ ''ffffff'' @ [CHR 0x22]
      @ ''>501: Not Implemented<p>Method not implemented: POST''
      @ ''<hr><em>The CS:APP Proxy Server</em></body></html>'']"
    by code_simp
  have 4: "client_writes (proxy_conc example_env (''GET http://down.org/ HTTP/1.1'' @ crlf)) =
     [''HTTP/1.0 404 Not found'' @ [CHR 0x0D, CHR 0x0A]
      @ ''Content-type: text/html'' @ [CHR 0x0D, CHR 0x0A]
      @ ''Content-length: 150'' @ [CHR 0x0D, CHR 0x0A, CHR 0x0D, CHR 0x0A],
      ''<html><title>Proxy Error</title><body bgcolor=ffffff>'' @ [CHR 0x0D, CHR 0x0A]
      @ ''404: Not found'' @ [CHR 0x0D, CHR 0x0A]
      @ ''<p>Cannot connect to the host: down.org'' @ [CHR 0x0D, CHR 0x0A]
      @ ''<hr><em>The CS:APP Proxy Server</em>'' @ [CHR 0x0D, CHR 0x0A]]"
    by code_simp
  from 1 2 3 4 show ?thesis by blast
qed

subsection \<open>The log\<close>

text \<open>
  Claim C8. A transaction appends one line to the log when it is completed, that is when
  the method is supported, the URI resolves, the filter lets the request pass and the
  connection is made; the line is
  \<^verbatim>\<open>[<timestamp>] <client-ip> <uri> <bytes>\<close> and a newline, with the value of the counter
  \<^verbatim>\<open>size\<close> as \<^verbatim>\<open><bytes>\<close>. It appends nothing when the first read returns nothing, the
  method is not supported, the URI does not resolve, the request is blocked or the
  connection fails. This holds in both files.
\<close>

theorem log_lines_per_transaction:
  "log_lines (proxy_seq e []) = [] \<and> log_lines (proxy_conc e []) = []
 \<and> (line \<noteq> [] \<and> sscanf3 e (c_str line) = (method, uri, version) \<longrightarrow>
      (\<not> supported method \<longrightarrow>
         log_lines (proxy_seq e line) = [] \<and> log_lines (proxy_conc e line) = [])
    \<and> (supported method \<and> parse_uri_seq uri = None \<longrightarrow> log_lines (proxy_seq e line) = [])
    \<and> (supported method \<and> \<not> uri_listed e uri \<and> parse_uri_conc uri = None \<longrightarrow>
         log_lines (proxy_conc e line) = [])
    \<and> (supported method \<and> parse_uri_seq uri = Some (hostname, pathname, port)
         \<and> host_listed e hostname \<longrightarrow> log_lines (proxy_seq e line) = [])
    \<and> (supported method \<and> uri_listed e uri \<longrightarrow> log_lines (proxy_conc e line) = [])
    \<and> (supported method \<and> parse_uri_seq uri = Some (hostname, pathname, port)
         \<and> \<not> host_listed e hostname
         \<and> open_clientfd e hostname (snprintf 6 (show_int port)) = None \<longrightarrow>
         log_lines (proxy_seq e line) = [])
    \<and> (supported method \<and> \<not> uri_listed e uri
         \<and> parse_uri_conc uri = Some (hostname, pathname, port)
         \<and> open_clientfd e hostname (snprintf 6 (show_int port)) = None \<longrightarrow>
         log_lines (proxy_conc e line) = [])
    \<and> (supported method \<and> parse_uri_seq uri = Some (hostname, pathname, port)
         \<and> \<not> host_listed e hostname
         \<and> open_clientfd e hostname (snprintf 6 (show_int port)) = Some reads \<longrightarrow>
         log_lines (proxy_seq e line) =
           [''['' @ time_str e @ ''] '' @ host_ip e @ '' '' @ uri @ '' ''
            @ show_int (sint (word_of_nat (sum_list (map length (forwarded reads))) :: 32 word))
            @ [LF]])
    \<and> (supported method \<and> \<not> uri_listed e uri
         \<and> parse_uri_conc uri = Some (hostname, pathname, port)
         \<and> open_clientfd e hostname (snprintf 6 (show_int port)) = Some reads \<longrightarrow>
         log_lines (proxy_conc e line) =
           [''['' @ time_str e @ ''] '' @ host_ip e @ '' '' @ uri @ '' ''
            @ show_int (sint (word_of_nat (sum_list (map length (forwarded reads))) :: 32 word))
            @ [LF]]))"
  (is "?e1 \<and> ?e2 \<and> (?pre \<longrightarrow> ?body)")
proof -
  have 1: ?e1 by (simp add: proxy_seq_def)
  have 2: ?e2 by (simp add: proxy_conc_def)
  have 3: ?body if "line \<noteq> []" and "sscanf3 e (c_str line) = (method, uri, version)"
    unfolding proxy_seq_unfold [OF that] proxy_conc_unfold [OF that]
    by (simp add: log_lines_forward_fail log_lines_forward_ok format_log_entry_def)
  from 1 2 3 show ?thesis by blast
qed

text \<open>C8 at a completed transaction (the server sends 21 bytes) and at a blocked one.\<close>

theorem log_lines_per_transaction_witness:
  "log_lines (proxy_seq example_env (''GET http://ok.org/a HTTP/1.1'' @ crlf)) =
     [''[Mon 02 Nov 2026 10:00:00 UTC] 127.0.0.1 http://ok.org/a 21'' @ [LF]]
 \<and> log_lines (proxy_conc example_env (''GET http://ok.org/a HTTP/1.1'' @ crlf)) =
     [''[Mon 02 Nov 2026 10:00:00 UTC] 127.0.0.1 http://ok.org/a 21'' @ [LF]]
 \<and> log_lines (proxy_conc example_env (''GET http://example.com/ HTTP/1.1'' @ crlf)) = []"
proof -
  let ?reads = "[''HTTP/1.0 200 OK'' @ crlf, crlf, ''hi'']"
  have ne: "''GET http://ok.org/a HTTP/1.1'' @ crlf \<noteq> []"
    "''GET http://example.com/ HTTP/1.1'' @ crlf \<noteq> []"
    by simp_all
  have ok: "sscanf3 example_env (c_str (''GET http://ok.org/a HTTP/1.1'' @ crlf))
      = (''GET'', ''http://ok.org/a'', ''HTTP/1.1'')"
    by code_simp
  have blocked: "sscanf3 example_env (c_str (''GET http://example.com/ HTTP/1.1'' @ crlf))
      = (''GET'', ''http://example.com/'', ''HTTP/1.1'')"
    by code_simp
  have m: "supported ''GET''"
    by (simp add: supported_def ci_equal_def)
  have p: "parse_uri_seq ''http://ok.org/a'' = Some (''ok.org'', ''/a'', 80)"
    "parse_uri_conc ''http://ok.org/a'' = Some (''ok.org'', ''/a'', 80)"
    by code_simp+
  have f: "\<not> host_listed example_env ''ok.org''" "\<not> uri_listed example_env ''http://ok.org/a''"
    "uri_listed example_env ''http://example.com/''"
    by code_simp+
  have c: "open_clientfd example_env ''ok.org'' (snprintf 6 (show_int 80)) = Some ?reads"
    by (simp add: example_env_def)
  have l: "''['' @ time_str example_env @ ''] '' @ host_ip example_env @ '' '' @ ''http://ok.org/a''
      @ '' '' @ show_int (sint (word_of_nat (sum_list (map length (forwarded ?reads))) :: 32 word))
      @ [LF] = ''[Mon 02 Nov 2026 10:00:00 UTC] 127.0.0.1 http://ok.org/a 21'' @ [LF]"
    by code_simp
  from log_lines_per_transaction
    [of example_env "''GET http://ok.org/a HTTP/1.1'' @ crlf" "''GET''" "''http://ok.org/a''"
      "''HTTP/1.1''" "''ok.org''" "''/a''" 80 ?reads]
    ne(1) ok m p f(1,2) c
  have 1: "log_lines (proxy_seq example_env (''GET http://ok.org/a HTTP/1.1'' @ crlf)) =
     [''[Mon 02 Nov 2026 10:00:00 UTC] 127.0.0.1 http://ok.org/a 21'' @ [LF]]"
    and 2: "log_lines (proxy_conc example_env (''GET http://ok.org/a HTTP/1.1'' @ crlf)) =
     [''[Mon 02 Nov 2026 10:00:00 UTC] 127.0.0.1 http://ok.org/a 21'' @ [LF]]"
    unfolding l [symmetric] by blast+
  from log_lines_per_transaction
    [of example_env "''GET http://example.com/ HTTP/1.1'' @ crlf" "''GET''"
      "''http://example.com/''" "''HTTP/1.1''"]
    ne(2) blocked m f(3)
  have 3: "log_lines (proxy_conc example_env (''GET http://example.com/ HTTP/1.1'' @ crlf)) = []"
    by blast
  from 1 2 3 show ?thesis by blast
qed

subsection \<open>The critical section of the log\<close>

lemma log_events_append [simp]: "log_events (xs @ ys) = log_events xs @ log_events ys"
  by (induction xs rule: log_events.induct) auto

lemma log_events_map [simp]: "log_events (map ClientWrite rs) = []"
  by (induction rs) auto

lemma log_events_clienterror [simp]:
  "log_events (clienterror_seq c n s l) = []" "log_events (clienterror_conc c n s l) = []"
  by (simp_all add: clienterror_seq_def clienterror_conc_def Let_def)

lemma critical_map [simp]: "critical held (map ClientWrite rs @ evs) = critical held evs"
  by (induction rs) auto

lemma critical_clienterror [simp]: "critical held (clienterror_conc c n s l) = (\<not> held)"
  by (simp add: clienterror_conc_def Let_def)






end
